theory Spec2Isabelle
  imports Complex_Main
begin

section \<open>Python exceptions and values\<close>

text \<open>
  Every \<^verbatim>\<open>raise\<close>, failed \<^verbatim>\<open>assert\<close> and failing built-in of the source is a value
  of \<open>py_error\<close>. \<open>KeyError\<close> (a missing dictionary key) and \<open>IndexError\<close> (a list
  index out of range) are different exceptions: an \<^verbatim>\<open>except IndexError\<close> clause does
  not catch a \<open>KeyError\<close>.
\<close>

datatype py_error =
    AssertionError
  | IndexError
  | KeyError
  | ValueError
  | TypeError
  | AttributeError
  | ZeroDivisionError
  | IOError

text \<open>
  The values of an hourly series: Python \<^verbatim>\<open>int\<close>, \<^verbatim>\<open>float\<close> (modelled by exact
  rationals) and \<^verbatim>\<open>str\<close>.
\<close>

datatype cell = IntV int | FloatV rat | StrV string

section \<open>datatype/base.py: DataTypeBase\<close>

text \<open>The bounds \<^verbatim>\<open>_min\<close> and \<^verbatim>\<open>_max\<close> are floats that default to the infinities.\<close>

datatype bound = NegInf | Finite rat | PosInf

text \<open>
  An instance of a data type class: the class name (\<^verbatim>\<open>self.__class__.__name__\<close>), the
  instance attribute \<^verbatim>\<open>_name\<close> and the class attributes the properties read.
\<close>

record data_type =
  class_name :: string
  name_attr :: "string option"
  units :: "string list"
  dt_min :: bound
  dt_max :: bound
  dt_abbreviation :: string
  unit_descr :: "(int \<times> string) list option"
  point_in_time :: bool
  cumulative :: bool

text \<open>Character classes of ASCII, for the regular expression and \<^verbatim>\<open>str.title\<close>.\<close>

definition upper_letters :: string where
  "upper_letters = ''ABCDEFGHIJKLMNOPQRSTUVWXYZ''"

definition lower_letters :: string where
  "lower_letters = ''abcdefghijklmnopqrstuvwxyz''"

definition is_upper :: "char \<Rightarrow> bool" where
  "is_upper c = (c \<in> set upper_letters)"

definition is_lower :: "char \<Rightarrow> bool" where
  "is_lower c = (c \<in> set lower_letters)"

definition is_digit :: "char \<Rightarrow> bool" where
  "is_digit c = (c \<in> set ''0123456789'')"

definition is_word_char :: "char \<Rightarrow> bool" where
  "is_word_char c = (is_upper c \<or> is_lower c \<or> is_digit c \<or> c = CHR ''_'')"

definition to_upper :: "char \<Rightarrow> char" where
  "to_upper c = (case map_of (zip lower_letters upper_letters) c of Some u \<Rightarrow> u | None \<Rightarrow> c)"

definition to_lower :: "char \<Rightarrow> char" where
  "to_lower c = (case map_of (zip upper_letters lower_letters) c of Some l \<Rightarrow> l | None \<Rightarrow> c)"

text \<open>
  \<^verbatim>\<open>re.sub(r"(?<=\w)([A-Z])", r" \1", s)\<close>: a space goes before every capital letter
  that follows a word character of the original string. The first argument is the
  character before the rest of the string (\<open>None\<close> at the start).
\<close>

fun space_capitals :: "char option \<Rightarrow> string \<Rightarrow> string" where
  "space_capitals prev [] = []"
| "space_capitals prev (c # cs) =
     (if is_upper c \<and> (case prev of None \<Rightarrow> False | Some p \<Rightarrow> is_word_char p)
      then CHR '' '' # c # space_capitals (Some c) cs
      else c # space_capitals (Some c) cs)"

text \<open>
  \<^verbatim>\<open>str.title\<close>: the first letter of every run of letters in upper case, the other
  letters of the run in lower case. The flag says whether the previous character was
  a letter.
\<close>

fun title_from :: "bool \<Rightarrow> string \<Rightarrow> string" where
  "title_from prev_cased [] = []"
| "title_from prev_cased (c # cs) =
     (if is_lower c then (if prev_cased then c else to_upper c) # title_from True cs
      else if is_upper c then (if prev_cased then to_lower c else c) # title_from True cs
      else c # title_from False cs)"

definition title :: "string \<Rightarrow> string" where
  "title s = title_from False s"

text \<open>\<^verbatim>\<open>s.replace(' ', '')\<close>\<close>

definition remove_spaces :: "string \<Rightarrow> string" where
  "remove_spaces s = filter (\<lambda>c. c \<noteq> CHR '' '') s"

text \<open>The property \<^verbatim>\<open>name\<close>.\<close>

definition name :: "data_type \<Rightarrow> string" where
  "name d = (case name_attr d of
               None \<Rightarrow> space_capitals None (class_name d)
             | Some n \<Rightarrow> n)"

text \<open>
  The dictionary of \<^verbatim>\<open>to_dict\<close> and \<^verbatim>\<open>from_dict\<close>: a key that is absent is
  \<open>None\<close>.
\<close>

record dt_dict =
  d_name :: "string option"
  d_data_type :: "string option"
  d_base_unit :: "string option"
  d_type :: "string option"

text \<open>\<^verbatim>\<open>to_dict\<close>; \<^verbatim>\<open>self.units[0]\<close> raises on an empty unit list.\<close>

definition to_dict :: "data_type \<Rightarrow> py_error + dt_dict" where
  "to_dict d =
     (case units d of
        [] \<Rightarrow> Inl IndexError
      | u # _ \<Rightarrow>
          Inr \<lparr>d_name = Some (name d), d_data_type = Some (class_name d),
               d_base_unit = Some u, d_type = Some ''DataTypeBase''\<rparr>)"

text \<open>
  Modelled from the spec: the class \<^verbatim>\<open>GenericType\<close> of datatype/generic.py, which is
  not among the sources. The spec says it is constructed with a name and a single
  base unit; every other attribute is the default of \<^verbatim>\<open>DataTypeBase\<close>.
\<close>

definition GenericType :: "string \<Rightarrow> string \<Rightarrow> data_type" where
  "GenericType n u =
     \<lparr>class_name = ''GenericType'', name_attr = Some n, units = [u],
      dt_min = NegInf, dt_max = PosInf, dt_abbreviation = '''', unit_descr = None,
      point_in_time = True, cumulative = False\<rparr>"

text \<open>
  \<^verbatim>\<open>_DataTypeEnumeration\<close>, as the scan over the subclasses defined at its first use
  left it: \<^verbatim>\<open>_TYPES\<close> maps a class name to what calling the class with no argument
  builds, \<^verbatim>\<open>_GENERICTYPE\<close> is the generic class or \<^verbatim>\<open>None\<close>.
\<close>

record enumeration =
  TYPES :: "string \<Rightarrow> data_type option"
  GENERICTYPE :: "(string \<Rightarrow> string \<Rightarrow> data_type) option"

text \<open>\<^verbatim>\<open>DataTypeBase.from_dict\<close>, with the memoised enumeration as an argument.\<close>

definition from_dict :: "enumeration \<Rightarrow> dt_dict \<Rightarrow> py_error + data_type" where
  "from_dict enum data =
     (case d_name data of
        None \<Rightarrow> Inl AssertionError
      | Some nm \<Rightarrow>
     (case d_data_type data of
        None \<Rightarrow> Inl AssertionError
      | Some tag \<Rightarrow>
          if tag = ''GenericType'' then
            (case d_base_unit data of
               None \<Rightarrow> Inl AssertionError
             | Some bu \<Rightarrow>
                 (case GENERICTYPE enum of
                    None \<Rightarrow> Inl TypeError
                  | Some g \<Rightarrow> Inr (g nm bu)))
          else
            (case TYPES enum tag of
               Some inst \<Rightarrow>
                 if tag = remove_spaces (title nm) then Inr inst
                 else Inr (inst\<lparr>name_attr := Some nm\<rparr>)
             | None \<Rightarrow> Inl ValueError)))"

section \<open>epw.py: EPWFields\<close>

text \<open>The value type of a column: \<^verbatim>\<open>int\<close>, \<^verbatim>\<open>float\<close> or \<^verbatim>\<open>str\<close>.\<close>

datatype value_type = TInt | TFloat | TStr

text \<open>
  An entry of \<^verbatim>\<open>EPWFields.FIELDS\<close>. Its keys \<^verbatim>\<open>min\<close> and \<^verbatim>\<open>max\<close> are read by no
  code and are left out; \<^verbatim>\<open>unit\<close> and \<^verbatim>\<open>missing\<close> are optional keys.
\<close>

record field_dict =
  fd_name :: data_type
  fd_type :: value_type
  fd_unit :: "string option"
  fd_missing :: "cell option"

definition mk_field ::
  "data_type \<Rightarrow> value_type \<Rightarrow> string \<Rightarrow> cell option \<Rightarrow> field_dict" where
  "mk_field dt vt u m = \<lparr>fd_name = dt, fd_type = vt, fd_unit = Some u, fd_missing = m\<rparr>"

text \<open>
  \<^verbatim>\<open>EPWFields.FIELDS\<close>, a dictionary keyed by the integers 0 to 34. The data type
  classes of the modules temperature, fraction, pressure, energyintensity,
  energyflux, illuminance, luminance, angle, speed and distance are not among the
  sources: \<open>variant\<close> gives the instance that calling the named class builds.
\<close>

definition FIELDS :: "(string \<Rightarrow> data_type) \<Rightarrow> (int \<times> field_dict) list" where
  "FIELDS variant =
     [(0, mk_field (GenericType ''Year'' ''yr'') TInt ''yr'' None),
      (1, mk_field (GenericType ''Month'' ''mon'') TInt ''mon'' None),
      (2, mk_field (GenericType ''Day'' ''day'') TInt ''day'' None),
      (3, mk_field (GenericType ''Hour'' ''hr'') TInt ''hr'' None),
      (4, mk_field (GenericType ''Minute'' ''min'') TInt ''min'' None),
      (5, mk_field (GenericType ''Uncertainty Flags'' ''flag'') TStr ''flag'' None),
      (6, mk_field (variant ''DryBulbTemperature'') TFloat ''C'' (Some (FloatV (999 / 10)))),
      (7, mk_field (variant ''DewPointTemperature'') TFloat ''C'' (Some (FloatV (999 / 10)))),
      (8, mk_field (variant ''RelativeHumidity'') TInt ''%'' (Some (IntV 999))),
      (9, mk_field (variant ''AtmosphericStationPressure'') TInt ''Pa'' (Some (IntV 999999))),
      (10, mk_field (variant ''ExtraterrestrialHorizontalRadiation'') TInt ''Wh/m2''
             (Some (IntV 9999))),
      (11, mk_field (variant ''ExtraterrestrialDirectNormalRadiation'') TInt ''Wh/m2''
             (Some (IntV 9999))),
      (12, mk_field (variant ''HorizontalInfraredRadiationIntensity'') TInt ''W/m2''
             (Some (IntV 9999))),
      (13, mk_field (variant ''GlobalHorizontalRadiation'') TInt ''Wh/m2'' (Some (IntV 9999))),
      (14, mk_field (variant ''DirectNormalRadiation'') TInt ''Wh/m2'' (Some (IntV 9999))),
      (15, mk_field (variant ''DiffuseHorizontalRadiation'') TInt ''Wh/m2'' (Some (IntV 9999))),
      (16, mk_field (variant ''GlobalHorizontalIlluminance'') TInt ''lux'' (Some (IntV 999999))),
      (17, mk_field (variant ''DirectNormalIlluminance'') TInt ''lux'' (Some (IntV 999999))),
      (18, mk_field (variant ''DiffuseHorizontalIlluminance'') TInt ''lux''
             (Some (IntV 999999))),
      (19, mk_field (variant ''ZenithLuminance'') TInt ''cd/m2'' (Some (IntV 9999))),
      (20, mk_field (variant ''WindDirection'') TInt ''degrees'' (Some (IntV 999))),
      (21, mk_field (variant ''WindSpeed'') TFloat ''m/s'' (Some (IntV 999))),
      (22, mk_field (variant ''TotalSkyCover'') TInt ''tenths'' (Some (IntV 99))),
      (23, mk_field (variant ''OpaqueSkyCover'') TInt ''tenths'' (Some (IntV 99))),
      (24, mk_field (variant ''Visibility'') TFloat ''km'' (Some (IntV 9999))),
      (25, mk_field (variant ''CeilingHeight'') TInt ''m'' (Some (IntV 99999))),
      (26, mk_field (GenericType ''Present Weather Observation'' ''observation'') TInt
             ''observation'' (Some (IntV 9))),
      (27, mk_field (GenericType ''Present Weather Codes'' ''codes'') TInt ''codes''
             (Some (IntV 999999999))),
      (28, mk_field (variant ''PrecipitableWater'') TInt ''mm'' (Some (IntV 999))),
      (29, mk_field (variant ''AerosolOpticalDepth'') TFloat ''fraction'' (Some (IntV 999))),
      (30, mk_field (variant ''SnowDepth'') TInt ''cm'' (Some (IntV 999))),
      (31, mk_field (GenericType ''Days Since Last Snowfall'' ''day'') TInt ''day''
             (Some (IntV 99))),
      (32, mk_field (variant ''Albedo'') TFloat ''fraction'' (Some (IntV 999))),
      (33, mk_field (variant ''LiquidPrecipitationDepth'') TFloat ''mm'' (Some (IntV 999))),
      (34, mk_field (variant ''LiquidPrecipitationQuantity'') TFloat ''fraction''
             (Some (IntV 99)))]"

text \<open>The class \<^verbatim>\<open>EPWField\<close>; its constructor copies the keys of the dictionary.\<close>

record epw_field =
  f_name :: data_type
  f_value_type :: value_type
  f_unit :: "string option"
  f_missing :: "cell option"

definition EPWField :: "field_dict \<Rightarrow> epw_field" where
  "EPWField fd =
     \<lparr>f_name = fd_name fd, f_value_type = fd_type fd,
      f_unit = (case fd_unit fd of Some u \<Rightarrow> Some u | None \<Rightarrow> None),
      f_missing = (case fd_missing fd of Some m \<Rightarrow> Some m | None \<Rightarrow> None)\<rparr>"

text \<open>
  \<^verbatim>\<open>EPWFields.field_by_number\<close>: \<^verbatim>\<open>cls.FIELDS[field_number]\<close> is a dictionary
  lookup, which raises \<open>KeyError\<close> on a key that is absent.
\<close>

definition field_by_number :: "(string \<Rightarrow> data_type) \<Rightarrow> int \<Rightarrow> py_error + epw_field" where
  "field_by_number variant field_number =
     (case map_of (FIELDS variant) field_number of
        None \<Rightarrow> Inl KeyError
      | Some fd \<Rightarrow> Inr (EPWField fd))"

text \<open>The composition \<^verbatim>\<open>DataTypeBase.from_dict(d.to_dict())\<close>.\<close>

definition round_trip :: "enumeration \<Rightarrow> data_type \<Rightarrow> py_error + data_type" where
  "round_trip enum d =
     (case to_dict d of Inl e \<Rightarrow> Inl e | Inr data \<Rightarrow> from_dict enum data)"

section \<open>epw.py: what the EPW object uses from outside the sources\<close>

text \<open>
  A \<^verbatim>\<open>Header\<close> (header.py) as far as epw.py uses it: the data type and the unit. The
  analysis period and the metadata of a header are not modelled.
\<close>

record header =
  h_data_type :: data_type
  h_unit :: "string option"

text \<open>
  An entry of \<^verbatim>\<open>EPW._data\<close>: during an import it is a plain list (no header yet),
  afterwards an \<^verbatim>\<open>HourlyContinuousCollection\<close> with a header and the list
  \<^verbatim>\<open>_values\<close>.
\<close>

record collection =
  c_header :: "header option"
  c_values :: "cell list"

text \<open>
  What lies outside the sources is an argument of the model: the classes of the
  missing data type modules (\<open>type_table\<close>), the built-ins \<^verbatim>\<open>int\<close>, \<^verbatim>\<open>float\<close>
  (\<open>None\<close> when they raise \<open>ValueError\<close>), \<^verbatim>\<open>int(round(x))\<close> and \<^verbatim>\<open>str\<close>, the unit
  conversions of a collection (datacollection.py), the helper \<^verbatim>\<open>write_to_file\<close>
  (futil.py; \<open>Some\<close> error when it raises) and the year that an annual
  \<^verbatim>\<open>AnalysisPeriod\<close> gives its datetimes.
\<close>

record world =
  type_table :: "string \<Rightarrow> data_type"
  int_of_str :: "string \<Rightarrow> int option"
  float_of_str :: "string \<Rightarrow> rat option"
  round_to_int :: "rat \<Rightarrow> int"
  str_of :: "cell \<Rightarrow> string"
  collection_to_si :: "collection \<Rightarrow> collection"
  collection_to_ip :: "collection \<Rightarrow> collection"
  write_to_file :: "string \<Rightarrow> string \<Rightarrow> py_error option"
  year_of :: "bool \<Rightarrow> int"

text \<open>
  Modelled from the spec: \<^verbatim>\<open>AnalysisPeriod(is_leap_year).datetimes\<close> of
  analysisperiod.py, which is not among the sources. The spec speaks of a full annual
  period at the given leap-year setting, of 8760 or 8784 hours, anchored at the hours
  0 to 23: every hour of every day of the twelve months, in order.
\<close>

record datetime =
  dt_year :: int
  dt_month :: nat
  dt_day :: nat
  dt_hour :: nat

definition days_in_month :: "bool \<Rightarrow> nat list" where
  "days_in_month leap = [31, if leap then 29 else 28, 31, 30, 31, 30, 31, 31, 30, 31, 30, 31]"

definition hours_of_day :: "int \<Rightarrow> nat \<Rightarrow> nat \<Rightarrow> datetime list" where
  "hours_of_day y m d = map (\<lambda>h. \<lparr>dt_year = y, dt_month = m, dt_day = d, dt_hour = h\<rparr>) [0..<24]"

definition hours_of_month :: "int \<Rightarrow> nat \<times> nat \<Rightarrow> datetime list" where
  "hours_of_month y md = concat (map (hours_of_day y (fst md)) [1..<Suc (snd md)])"

definition datetimes :: "int \<Rightarrow> bool \<Rightarrow> datetime list" where
  "datetimes y leap = concat (map (hours_of_month y) (zip [1..<13] (days_in_month leap)))"

text \<open>
  The file at \<^verbatim>\<open>_file_path\<close>, as \<^verbatim>\<open>_import_data\<close> sees it. Of the eight header lines
  the model keeps the leap-year flag and the exception that parsing them raises, if
  any (the parsing itself is not modelled); \<open>rows\<close> are the lines from the ninth on,
  each after \<^verbatim>\<open>line.strip().split(',')\<close>.
\<close>

record epw_file =
  header_error :: "py_error option"
  leap_flag :: bool
  rows :: "string list list"

datatype file_state = NoPath | NoFile | WrongExtension | File epw_file

section \<open>epw.py: EPW\<close>

text \<open>
  The attributes of an EPW object that the hourly data depend on. Location, design
  conditions, weeks, ground temperatures and comments only feed the property
  \<^verbatim>\<open>header\<close>, whose text is the argument \<open>header_text\<close> of \<open>save\<close>.
\<close>

record epw =
  file_at_path :: file_state
  is_header_loaded :: bool
  is_data_loaded :: bool
  is_ip :: bool
  data :: "collection list"
  is_leap_year :: bool
  num_of_fields :: nat

definition EPW_init :: "file_state \<Rightarrow> epw" where
  "EPW_init f =
     \<lparr>file_at_path = f, is_header_loaded = False, is_data_loaded = False, is_ip = False,
      data = [], is_leap_year = False, num_of_fields = 35\<rparr>"

text \<open>
  \<^verbatim>\<open>Header(data_type=field.name, unit=field.unit, ...)\<close> for each field number of a
  \<^verbatim>\<open>range\<close>.
\<close>

fun make_headers :: "world \<Rightarrow> nat list \<Rightarrow> py_error + header list" where
  "make_headers w [] = Inr []"
| "make_headers w (i # fnums) =
     (case field_by_number (type_table w) (int i) of
        Inl err \<Rightarrow> Inl err
      | Inr field \<Rightarrow>
          (case make_headers w fnums of
             Inl err \<Rightarrow> Inl err
           | Inr hs \<Rightarrow> Inr (\<lparr>h_data_type = f_name field, h_unit = f_unit field\<rparr> # hs)))"

text \<open>
  \<^verbatim>\<open>value_type(token)\<close>; an integer column whose token is no integer is read as a
  float and rounded, any other failure is a \<open>ValueError\<close>.
\<close>

definition decode_value :: "world \<Rightarrow> value_type \<Rightarrow> string \<Rightarrow> py_error + cell" where
  "decode_value w vt tok =
     (case vt of
        TStr \<Rightarrow> Inr (StrV tok)
      | TFloat \<Rightarrow>
          (case float_of_str w tok of
             Some x \<Rightarrow> Inr (FloatV x)
           | None \<Rightarrow> Inl ValueError)
      | TInt \<Rightarrow>
          (case int_of_str w tok of
             Some n \<Rightarrow> Inr (IntV n)
           | None \<Rightarrow>
               (case float_of_str w tok of
                  Some x \<Rightarrow> Inr (IntV (round_to_int w x))
                | None \<Rightarrow> Inl ValueError)))"

text \<open>
  The inner loop of the data phase: for every field number, decode the token of the
  row and append it to the list of the field. A row with too few tokens raises
  \<open>IndexError\<close>.
\<close>

fun collect_row ::
  "world \<Rightarrow> string list \<Rightarrow> nat list \<Rightarrow> collection list \<Rightarrow> py_error option \<times> collection list" where
  "collect_row w row [] d = (None, d)"
| "collect_row w row (i # fnums) d =
     (case field_by_number (type_table w) (int i) of
        Inl err \<Rightarrow> (Some err, d)
      | Inr field \<Rightarrow>
          if length row \<le> i then (Some IndexError, d)
          else
            (case decode_value w (f_value_type field) (row ! i) of
               Inl err \<Rightarrow> (Some err, d)
             | Inr v \<Rightarrow>
                 if length d \<le> i then (Some IndexError, d)
                 else collect_row w row fnums
                        (d[i := (d ! i)\<lparr>c_values := c_values (d ! i) @ [v]\<rparr>])))"

text \<open>The loop \<^verbatim>\<open>while line:\<close> over the data lines.\<close>

fun collect_rows ::
  "world \<Rightarrow> nat list \<Rightarrow> string list list \<Rightarrow> collection list
     \<Rightarrow> py_error option \<times> collection list" where
  "collect_rows w fnums [] d = (None, d)"
| "collect_rows w fnums (row # rest) d =
     (case collect_row w row fnums d of
        (Some err, d') \<Rightarrow> (Some err, d')
      | (None, d') \<Rightarrow> collect_rows w fnums rest d')"

text \<open>
  The two moves of the hour alignment on a list: \<^verbatim>\<open>x = l.pop(); l.insert(0, x)\<close> and
  \<^verbatim>\<open>x = l.pop(0); l.append(x)\<close>. \<^verbatim>\<open>pop\<close> raises \<open>IndexError\<close> on an empty list.
\<close>

definition last_to_front :: "'a list \<Rightarrow> py_error + 'a list" where
  "last_to_front xs = (if xs = [] then Inl IndexError else Inr (last xs # butlast xs))"

definition first_to_end :: "'a list \<Rightarrow> py_error + 'a list" where
  "first_to_end xs = (case xs of [] \<Rightarrow> Inl IndexError | x # rest \<Rightarrow> Inr (rest @ [x]))"

text \<open>
  The alignment loop of \<^verbatim>\<open>_import_data\<close>: the flag comes from the header built for
  the field, the list from \<^verbatim>\<open>self._data\<close>.
\<close>

fun import_shift ::
  "header list \<Rightarrow> nat list \<Rightarrow> collection list \<Rightarrow> py_error option \<times> collection list" where
  "import_shift hs [] d = (None, d)"
| "import_shift hs (i # fnums) d =
     (if length hs \<le> i then (Some IndexError, d)
      else if point_in_time (h_data_type (hs ! i)) then
        (if length d \<le> i then (Some IndexError, d)
         else
           (case last_to_front (c_values (d ! i)) of
              Inl err \<Rightarrow> (Some err, d)
            | Inr vs \<Rightarrow> import_shift hs fnums (d[i := (d ! i)\<lparr>c_values := vs\<rparr>])))
      else import_shift hs fnums d)"

text \<open>
  \<^verbatim>\<open>self._data[i] = HourlyContinuousCollection(headers[i], self._data[i])\<close> for every
  field number.
\<close>

fun wrap_collections ::
  "header list \<Rightarrow> nat list \<Rightarrow> collection list \<Rightarrow> py_error option \<times> collection list" where
  "wrap_collections hs [] d = (None, d)"
| "wrap_collections hs (i # fnums) d =
     (if length hs \<le> i \<or> length d \<le> i then (Some IndexError, d)
      else wrap_collections hs fnums (d[i := (d ! i)\<lparr>c_header := Some (hs ! i)\<rparr>]))"

text \<open>
  \<^verbatim>\<open>_import_data()\<close> with \<^verbatim>\<open>import_header_only=False\<close>: the checks on the file, the
  header phase (kept abstract, see \<open>epw_file\<close>) and the data phase. The result is the
  exception raised, if any, and the object as the call leaves it.
\<close>

definition import_data :: "world \<Rightarrow> epw \<Rightarrow> py_error option \<times> epw" where
  "import_data w e =
     (case file_at_path e of
        NoPath \<Rightarrow> (Some TypeError, e)
      | NoFile \<Rightarrow> (Some AssertionError, e)
      | WrongExtension \<Rightarrow> (Some AssertionError, e)
      | File f \<Rightarrow>
          (case (if is_header_loaded e then None else header_error f) of
             Some err \<Rightarrow> (Some err, e)
           | None \<Rightarrow>
               let e1 = (if is_header_loaded e then e
                         else e\<lparr>is_header_loaded := True, is_leap_year := leap_flag f\<rparr>);
                   line = (case rows f of [] \<Rightarrow> [''''] | r # _ \<Rightarrow> r);
                   nf = min (length line) 35;
                   e2 = e1\<lparr>num_of_fields := nf\<rparr>
               in
                 (case make_headers w [0..<nf] of
                    Inl err \<Rightarrow> (Some err, e2)
                  | Inr headers \<Rightarrow>
                      let d0 = data e2 @ replicate nf \<lparr>c_header = None, c_values = []\<rparr> in
                      (case collect_rows w [0..<nf] (rows f) d0 of
                         (Some err, d1) \<Rightarrow> (Some err, e2\<lparr>data := d1\<rparr>)
                       | (None, d1) \<Rightarrow>
                           (case import_shift headers [0..<nf] d1 of
                              (Some err, d2) \<Rightarrow> (Some err, e2\<lparr>data := d2\<rparr>)
                            | (None, d2) \<Rightarrow>
                                (case wrap_collections headers [0..<nf] d2 of
                                   (Some err, d3) \<Rightarrow> (Some err, e2\<lparr>data := d3\<rparr>)
                                 | (None, d3) \<Rightarrow>
                                     (None, e2\<lparr>data := d3, is_data_loaded := True\<rparr>)))))))"

text \<open>\<^verbatim>\<open>convert_to_si\<close> and \<^verbatim>\<open>convert_to_ip\<close>.\<close>

definition convert_to_si :: "world \<Rightarrow> epw \<Rightarrow> py_error option \<times> epw" where
  "convert_to_si w e =
     (case (if is_data_loaded e then (None, e) else import_data w e) of
        (Some err, e1) \<Rightarrow> (Some err, e1)
      | (None, e1) \<Rightarrow>
          (None, (if is_ip e1 then e1\<lparr>data := map (collection_to_si w) (data e1)\<rparr> else e1)
                   \<lparr>is_ip := False\<rparr>))"

definition convert_to_ip :: "world \<Rightarrow> epw \<Rightarrow> py_error option \<times> epw" where
  "convert_to_ip w e =
     (case (if is_data_loaded e then (None, e) else import_data w e) of
        (Some err, e1) \<Rightarrow> (Some err, e1)
      | (None, e1) \<Rightarrow>
          (None, (if is_ip e1 then e1 else e1\<lparr>data := map (collection_to_ip w) (data e1)\<rparr>)
                   \<lparr>is_ip := True\<rparr>))"

text \<open>
  The alignment loops of \<^verbatim>\<open>save\<close>: for every field number whose collection has a
  point-in-time data type, apply the move to \<^verbatim>\<open>_values\<close>. The loop of the
  \<^verbatim>\<open>try\<close> block moves the first value to the end, the loop of the \<^verbatim>\<open>finally\<close>
  clause moves the last value to the front.
\<close>

fun shift_fields ::
  "(cell list \<Rightarrow> py_error + cell list) \<Rightarrow> nat list \<Rightarrow> collection list
     \<Rightarrow> py_error option \<times> collection list" where
  "shift_fields move [] d = (None, d)"
| "shift_fields move (i # fnums) d =
     (if length d \<le> i then (Some IndexError, d)
      else
        (case c_header (d ! i) of
           None \<Rightarrow> (Some AttributeError, d)
         | Some h \<Rightarrow>
             if point_in_time (h_data_type h) then
               (case move (c_values (d ! i)) of
                  Inl err \<Rightarrow> (Some err, d)
                | Inr vs \<Rightarrow> shift_fields move fnums (d[i := (d ! i)\<lparr>c_values := vs\<rparr>]))
             else shift_fields move fnums d))"

text \<open>\<^verbatim>\<open>",".join(line) + "\n"\<close>\<close>

fun join_commas :: "string list \<Rightarrow> string" where
  "join_commas [] = []"
| "join_commas [x] = x"
| "join_commas (x # y # ys) = x @ '','' @ join_commas (y # ys)"

definition text_line :: "string list \<Rightarrow> string" where
  "text_line line = join_commas line @ [CHR 0x0A]"

text \<open>
  \<^verbatim>\<open>str(self._data[field]._values[hour])\<close> for every field number: the cells of the
  line of one hour.
\<close>

fun line_cells :: "world \<Rightarrow> nat list \<Rightarrow> nat \<Rightarrow> collection list \<Rightarrow> py_error + string list" where
  "line_cells w [] hour d = Inr []"
| "line_cells w (i # fnums) hour d =
     (if length d \<le> i then Inl IndexError
      else
        (case c_header (d ! i) of
           None \<Rightarrow> Inl AttributeError
         | Some h \<Rightarrow>
             if length (c_values (d ! i)) \<le> hour then Inl IndexError
             else
               (case line_cells w fnums hour d of
                  Inl err \<Rightarrow> Inl err
                | Inr cs \<Rightarrow> Inr (str_of w (c_values (d ! i) ! hour) # cs))))"

fun data_lines ::
  "world \<Rightarrow> nat list \<Rightarrow> nat list \<Rightarrow> collection list \<Rightarrow> py_error + string list" where
  "data_lines w fnums [] d = Inr []"
| "data_lines w fnums (hour # hours) d =
     (case line_cells w fnums hour d of
        Inl err \<Rightarrow> Inl err
      | Inr cs \<Rightarrow>
          (case data_lines w fnums hours d of
             Inl err \<Rightarrow> Inl err
           | Inr ls \<Rightarrow> Inr (text_line cs # ls)))"

text \<open>
  The body of the \<^verbatim>\<open>try\<close> block of \<^verbatim>\<open>save\<close>: the inverse alignment, then one line
  per hour of the annual period. The result is the exception raised or the data lines,
  and \<^verbatim>\<open>_data\<close> as the block leaves it.
\<close>

definition save_try_block ::
  "world \<Rightarrow> nat list \<Rightarrow> nat list \<Rightarrow> collection list
     \<Rightarrow> (py_error + string list) \<times> collection list" where
  "save_try_block w fnums hours d =
     (case shift_fields first_to_end fnums d of
        (Some err, d1) \<Rightarrow> (Inl err, d1)
      | (None, d1) \<Rightarrow>
          (case data_lines w fnums hours d1 of
             Inl err \<Rightarrow> (Inl err, d1)
           | Inr dl \<Rightarrow> (Inr dl, d1)))"

text \<open>
  The whole \<^verbatim>\<open>try\<close> statement: the \<^verbatim>\<open>except IndexError\<close> clause raises
  \<open>ValueError\<close> instead, the \<^verbatim>\<open>else\<close> clause hands the text to
  \<^verbatim>\<open>write_to_file\<close>, and the \<^verbatim>\<open>finally\<close> clause runs the forward alignment; an
  exception raised in the \<^verbatim>\<open>finally\<close> clause replaces the pending one. The result
  is the exception that leaves the statement, the object, and the path and text handed
  to \<^verbatim>\<open>write_to_file\<close> (if the call was reached).
\<close>

definition save_try_statement ::
  "world \<Rightarrow> string list \<Rightarrow> epw \<Rightarrow> string
     \<Rightarrow> py_error option \<times> epw \<times> (string \<times> string) option" where
  "save_try_statement w lines e file_path =
     (let fnums = [0..<num_of_fields e];
          hours = [0..<length (datetimes (year_of w (is_leap_year e)) (is_leap_year e))];
          (r, d1) = save_try_block w fnums hours (data e);
          (pending, handed) =
             (case r of
                Inl err \<Rightarrow> (Some (if err = IndexError then ValueError else err), None)
              | Inr dl \<Rightarrow>
                  (write_to_file w file_path (concat (lines @ dl)),
                   Some (file_path, concat (lines @ dl))));
          (r2, d2) = shift_fields last_to_front fnums d1
      in (case r2 of Some err2 \<Rightarrow> Some err2 | None \<Rightarrow> pending, e\<lparr>data := d2\<rparr>, handed))"

text \<open>
  \<^verbatim>\<open>save(file_path)\<close>. \<open>header_text\<close> is what the property \<^verbatim>\<open>header\<close> yields on
  the object (its eight lines, or the exception it raises). The result is the returned
  path or the exception, the object after the call, and what was handed to
  \<^verbatim>\<open>write_to_file\<close>.
\<close>

definition save ::
  "world \<Rightarrow> (py_error + string list) \<Rightarrow> epw \<Rightarrow> string
     \<Rightarrow> (py_error + string) \<times> epw \<times> (string \<times> string) option" where
  "save w header_text e file_path =
     (case (if is_data_loaded e then (None, e) else import_data w e) of
        (Some err, e1) \<Rightarrow> (Inl err, e1, None)
      | (None, e1) \<Rightarrow>
          (case (if is_ip e1 then convert_to_si w e1 else (None, e1)) of
             (Some err, e2) \<Rightarrow> (Inl err, e2, None)
           | (None, e2) \<Rightarrow>
               (case header_text of
                  Inl err \<Rightarrow> (Inl err, e2, None)
                | Inr lines \<Rightarrow>
                    (case save_try_statement w lines e2 file_path of
                       (Some err, e3, handed) \<Rightarrow> (Inl err, e3, handed)
                     | (None, e3, handed) \<Rightarrow>
                         (case (if is_ip e1 then convert_to_ip w e3 else (None, e3)) of
                            (Some err, e4) \<Rightarrow> (Inl err, e4, handed)
                          | (None, e4) \<Rightarrow> (Inr file_path, e4, handed))))))"

text \<open>\<^verbatim>\<open>from_missing_values\<close>: the columns of dates and flags, one entry per datetime.\<close>

definition uncertainty :: string where
  "uncertainty = ''?9?9?9?9E0?9?9?9?9?9?9?9?9?9?9?9?9?9?9?9*9*9?9?9?9''"

definition append_value :: "nat \<Rightarrow> cell \<Rightarrow> collection list \<Rightarrow> collection list" where
  "append_value i v d = d[i := (d ! i)\<lparr>c_values := c_values (d ! i) @ [v]\<rparr>]"

fun fill_datetimes :: "datetime list \<Rightarrow> collection list \<Rightarrow> py_error option \<times> collection list" where
  "fill_datetimes [] d = (None, d)"
| "fill_datetimes (dt # dts) d =
     (if length d \<le> 5 then (Some IndexError, d)
      else
        let hr = (if dt_hour dt \<noteq> 0 then dt_hour dt else 24) in
        fill_datetimes dts
          (append_value 5 (StrV uncertainty)
            (append_value 4 (IntV 0)
              (append_value 3 (IntV (int hr))
                (append_value 2 (IntV (int (dt_day dt)))
                  (append_value 1 (IntV (int (dt_month dt)))
                    (append_value 0 (IntV (dt_year dt)) d)))))))"

text \<open>
  The loop over the field numbers from 6 on: \<open>calc_length\<close> copies of the missing value
  of the field, or of 0 when the field declares none.
\<close>

fun fill_missing ::
  "world \<Rightarrow> nat list \<Rightarrow> nat \<Rightarrow> collection list \<Rightarrow> py_error option \<times> collection list" where
  "fill_missing w [] calc_length d = (None, d)"
| "fill_missing w (i # fnums) calc_length d =
     (case field_by_number (type_table w) (int i) of
        Inl err \<Rightarrow> (Some err, d)
      | Inr field \<Rightarrow>
          let mis_val = (case f_missing field of Some m \<Rightarrow> m | None \<Rightarrow> IntV 0) in
          if calc_length \<noteq> 0 \<and> length d \<le> i then (Some IndexError, d)
          else fill_missing w fnums calc_length
                 (d[i := (d ! i)\<lparr>c_values := c_values (d ! i) @ replicate calc_length mis_val\<rparr>]))"

definition from_missing_values :: "world \<Rightarrow> bool \<Rightarrow> py_error + epw" where
  "from_missing_values w leap =
     (let epw_obj = (EPW_init NoPath)\<lparr>is_leap_year := leap\<rparr>;
          analysis_period = datetimes (year_of w leap) leap;
          fnums = [0..<num_of_fields epw_obj]
      in
        (case make_headers w fnums of
           Inl err \<Rightarrow> Inl err
         | Inr headers \<Rightarrow>
             let d0 = data epw_obj
                        @ replicate (num_of_fields epw_obj) \<lparr>c_header = None, c_values = []\<rparr>
             in
               (case fill_datetimes analysis_period d0 of
                  (Some err, d1) \<Rightarrow> Inl err
                | (None, d1) \<Rightarrow>
                    (case fill_missing w [6..<num_of_fields epw_obj]
                            (length analysis_period) d1 of
                       (Some err, d2) \<Rightarrow> Inl err
                     | (None, d2) \<Rightarrow>
                         (case wrap_collections headers fnums d2 of
                            (Some err, d3) \<Rightarrow> Inl err
                          | (None, d3) \<Rightarrow>
                              Inr (epw_obj\<lparr>data := d3, is_header_loaded := True,
                                           is_data_loaded := True\<rparr>))))))"

section \<open>legend.py: what the legend uses from outside the sources\<close>

text \<open>
  \<^verbatim>\<open>Point3D\<close>, \<^verbatim>\<open>Vector3D\<close> and \<^verbatim>\<open>Plane\<close> of the geometry library, as values: three
  coordinates, and a normal with an origin. \<^verbatim>\<open>Plane(o=pt)\<close> has the normal (0, 0, 1).
\<close>

record point3d =
  pt_x :: rat
  pt_y :: rat
  pt_z :: rat

record plane =
  pl_n :: point3d
  pl_o :: point3d

definition Plane_at :: "point3d \<Rightarrow> plane" where
  "Plane_at pt = \<lparr>pl_n = \<lparr>pt_x = 0, pt_y = 0, pt_z = 1\<rparr>, pl_o = pt\<rparr>"

text \<open>
  A colour of color.py (not among the sources) is kept abstract as its three channels.
  What a caller may pass in a colour list: a \<^verbatim>\<open>Color\<close>, an object with the attributes
  \<^verbatim>\<open>R\<close>, \<^verbatim>\<open>G\<close>, \<^verbatim>\<open>B\<close>, an object with the attributes \<^verbatim>\<open>Red\<close>, \<^verbatim>\<open>Green\<close>,
  \<^verbatim>\<open>Blue\<close>, or anything else.
\<close>

datatype color = Color int int int

datatype color_like =
    AColor color
  | HasRGB int int int
  | HasRedGreenBlue int int int
  | NoColor

text \<open>
  The constructor \<^verbatim>\<open>Color(r, g, b)\<close> (\<open>None\<close> when it raises) and the default colours
  \<^verbatim>\<open>Colorset.original()\<close> are arguments of the model.
\<close>

record palette =
  new_color :: "int \<Rightarrow> int \<Rightarrow> int \<Rightarrow> color option"
  original :: "color list"

section \<open>legend.py: LegendParameters\<close>

text \<open>
  The private attributes of a \<^verbatim>\<open>LegendParameters\<close> object (\<open>p_min\<close> is \<^verbatim>\<open>_min\<close>, and so
  on). Numbers are exact rationals. An ordinal dictionary is the list of its items; the
  keys of a dictionary are distinct.
\<close>

record legend_parameters =
  p_min :: "rat option"
  p_max :: "rat option"
  p_segment_count :: int
  p_colors :: "color list"
  p_continuous_colors :: bool
  p_continuous_legend :: bool
  p_title :: string
  p_ordinal_dictionary :: "(int \<times> string) list option"
  p_decimal_count :: int
  p_include_larger_smaller :: bool
  p_vertical :: bool
  p_base_plane :: plane
  p_segment_height :: rat
  p_segment_width :: rat
  p_text_height :: "rat option"
  p_font :: string
  is_segment_count_default :: bool
  is_title_default :: bool
  is_base_plane_default :: bool
  is_segment_height_default :: bool
  is_segment_width_default :: bool
  is_text_height_default :: bool

text \<open>
  The property setters. The argument is \<open>None\<close> for \<^verbatim>\<open>None\<close>; the result is the
  exception raised, if any, and the object as the setter leaves it. A failed
  \<^verbatim>\<open>assert\<close> is an \<open>AssertionError\<close>. The \<^verbatim>\<open>isinstance\<close> checks are the types of the
  arguments.
\<close>

definition set_min :: "rat option \<Rightarrow> legend_parameters \<Rightarrow> py_error option \<times> legend_parameters" where
  "set_min minimum p =
     (case minimum of
        None \<Rightarrow> (None, p\<lparr>p_min := None\<rparr>)
      | Some m \<Rightarrow>
          (case p_max p of
             None \<Rightarrow> (None, p\<lparr>p_min := Some m\<rparr>)
           | Some mx \<Rightarrow>
               if m \<le> mx then (None, p\<lparr>p_min := Some m\<rparr>) else (Some AssertionError, p)))"

definition set_max :: "rat option \<Rightarrow> legend_parameters \<Rightarrow> py_error option \<times> legend_parameters" where
  "set_max maximum p =
     (case maximum of
        None \<Rightarrow> (None, p\<lparr>p_max := None\<rparr>)
      | Some m \<Rightarrow>
          (case p_min p of
             None \<Rightarrow> (None, p\<lparr>p_max := Some m\<rparr>)
           | Some mn \<Rightarrow>
               if mn \<le> m then (None, p\<lparr>p_max := Some m\<rparr>) else (Some AssertionError, p)))"

definition set_segment_count ::
  "int option \<Rightarrow> legend_parameters \<Rightarrow> py_error option \<times> legend_parameters" where
  "set_segment_count nos p =
     (case nos of
        Some n \<Rightarrow>
          if 2 \<le> n then (None, p\<lparr>p_segment_count := n, is_segment_count_default := False\<rparr>)
          else (Some AssertionError, p)
      | None \<Rightarrow> (None, p\<lparr>p_segment_count := 11, is_segment_count_default := True\<rparr>))"

text \<open>
  The two attempts of the colour setter to turn the list into colours: every element
  is a \<^verbatim>\<open>Color\<close> or has \<^verbatim>\<open>R\<close>, \<^verbatim>\<open>G\<close>, \<^verbatim>\<open>B\<close>; or every element has \<^verbatim>\<open>Red\<close>,
  \<^verbatim>\<open>Green\<close>, \<^verbatim>\<open>Blue\<close>. \<open>None\<close> is an exception inside the \<^verbatim>\<open>try\<close>.
\<close>

fun colors_by_rgb :: "palette \<Rightarrow> color_like list \<Rightarrow> color list option" where
  "colors_by_rgb pal [] = Some []"
| "colors_by_rgb pal (c # cs) =
     (case (case c of AColor col \<Rightarrow> Some col
                    | HasRGB r g b \<Rightarrow> new_color pal r g b
                    | HasRedGreenBlue r g b \<Rightarrow> None
                    | NoColor \<Rightarrow> None) of
        None \<Rightarrow> None
      | Some col \<Rightarrow>
          (case colors_by_rgb pal cs of None \<Rightarrow> None | Some cols \<Rightarrow> Some (col # cols)))"

fun colors_by_red_green_blue :: "palette \<Rightarrow> color_like list \<Rightarrow> color list option" where
  "colors_by_red_green_blue pal [] = Some []"
| "colors_by_red_green_blue pal (c # cs) =
     (case (case c of HasRedGreenBlue r g b \<Rightarrow> new_color pal r g b
                    | AColor col \<Rightarrow> None
                    | HasRGB r g b \<Rightarrow> None
                    | NoColor \<Rightarrow> None) of
        None \<Rightarrow> None
      | Some col \<Rightarrow>
          (case colors_by_red_green_blue pal cs of
             None \<Rightarrow> None
           | Some cols \<Rightarrow> Some (col # cols)))"

definition set_colors ::
  "palette \<Rightarrow> color_like list option \<Rightarrow> legend_parameters
     \<Rightarrow> py_error option \<times> legend_parameters" where
  "set_colors pal cols p =
     (case cols of
        Some cs \<Rightarrow>
          if 1 < length cs then
            (case colors_by_rgb pal cs of
               Some colors \<Rightarrow> (None, p\<lparr>p_colors := colors\<rparr>)
             | None \<Rightarrow>
                 (case colors_by_red_green_blue pal cs of
                    Some colors \<Rightarrow> (None, p\<lparr>p_colors := colors\<rparr>)
                  | None \<Rightarrow> (Some ValueError, p)))
          else (Some AssertionError, p)
      | None \<Rightarrow> (None, p\<lparr>p_colors := original pal\<rparr>))"

definition set_continuous_colors ::
  "bool option \<Rightarrow> legend_parameters \<Rightarrow> py_error option \<times> legend_parameters" where
  "set_continuous_colors cont_cols p =
     (None, p\<lparr>p_continuous_colors := (case cont_cols of Some b \<Rightarrow> b | None \<Rightarrow> True)\<rparr>)"

definition set_continuous_legend ::
  "bool option \<Rightarrow> legend_parameters \<Rightarrow> py_error option \<times> legend_parameters" where
  "set_continuous_legend cont_leg p =
     (None, p\<lparr>p_continuous_legend := (case cont_leg of Some b \<Rightarrow> b | None \<Rightarrow> False)\<rparr>)"

definition set_title ::
  "string option \<Rightarrow> legend_parameters \<Rightarrow> py_error option \<times> legend_parameters" where
  "set_title t p =
     (case t of
        Some s \<Rightarrow> (None, p\<lparr>p_title := s, is_title_default := False\<rparr>)
      | None \<Rightarrow> (None, p\<lparr>p_title := '''', is_title_default := True\<rparr>))"

definition set_ordinal_dictionary ::
  "(int \<times> string) list option \<Rightarrow> legend_parameters \<Rightarrow> py_error option \<times> legend_parameters" where
  "set_ordinal_dictionary o_dict p = (None, p\<lparr>p_ordinal_dictionary := o_dict\<rparr>)"

definition set_decimal_count ::
  "int option \<Rightarrow> legend_parameters \<Rightarrow> py_error option \<times> legend_parameters" where
  "set_decimal_count n_dec p =
     (None, p\<lparr>p_decimal_count := (case n_dec of Some n \<Rightarrow> n | None \<Rightarrow> 2)\<rparr>)"

definition set_include_larger_smaller ::
  "bool option \<Rightarrow> legend_parameters \<Rightarrow> py_error option \<times> legend_parameters" where
  "set_include_larger_smaller lgsm p =
     (None, p\<lparr>p_include_larger_smaller := (case lgsm of Some b \<Rightarrow> b | None \<Rightarrow> False)\<rparr>)"

definition set_vertical ::
  "bool option \<Rightarrow> legend_parameters \<Rightarrow> py_error option \<times> legend_parameters" where
  "set_vertical v p =
     (None, p\<lparr>p_vertical := (case v of Some b \<Rightarrow> b | None \<Rightarrow> True)\<rparr>)"

definition set_base_plane ::
  "plane option \<Rightarrow> legend_parameters \<Rightarrow> py_error option \<times> legend_parameters" where
  "set_base_plane base_pl p =
     (case base_pl of
        Some pl \<Rightarrow> (None, p\<lparr>p_base_plane := pl, is_base_plane_default := False\<rparr>)
      | None \<Rightarrow>
          (None, p\<lparr>p_base_plane := \<lparr>pl_n = \<lparr>pt_x = 0, pt_y = 0, pt_z = 1\<rparr>,
                                        pl_o = \<lparr>pt_x = 0, pt_y = 0, pt_z = 0\<rparr>\<rparr>,
                    is_base_plane_default := True\<rparr>))"

definition set_segment_height ::
  "rat option \<Rightarrow> legend_parameters \<Rightarrow> py_error option \<times> legend_parameters" where
  "set_segment_height seg_h p =
     (case seg_h of
        Some v \<Rightarrow>
          if 0 < v then (None, p\<lparr>p_segment_height := v, is_segment_height_default := False\<rparr>)
          else (Some AssertionError, p)
      | None \<Rightarrow> (None, p\<lparr>p_segment_height := 1, is_segment_height_default := True\<rparr>))"

definition set_segment_width ::
  "rat option \<Rightarrow> legend_parameters \<Rightarrow> py_error option \<times> legend_parameters" where
  "set_segment_width seg_w p =
     (case seg_w of
        Some v \<Rightarrow>
          if 0 < v then (None, p\<lparr>p_segment_width := v, is_segment_width_default := False\<rparr>)
          else (Some AssertionError, p)
      | None \<Rightarrow> (None, p\<lparr>p_segment_width := 1, is_segment_width_default := True\<rparr>))"

definition set_text_height ::
  "rat option \<Rightarrow> legend_parameters \<Rightarrow> py_error option \<times> legend_parameters" where
  "set_text_height txt_h p =
     (case txt_h of
        Some v \<Rightarrow>
          if 0 < v then (None, p\<lparr>is_text_height_default := False, p_text_height := Some v\<rparr>)
          else (Some AssertionError, p)
      | None \<Rightarrow> (None, p\<lparr>is_text_height_default := True, p_text_height := None\<rparr>))"

definition set_font ::
  "string option \<Rightarrow> legend_parameters \<Rightarrow> py_error option \<times> legend_parameters" where
  "set_font f p = (None, p\<lparr>p_font := (case f of Some s \<Rightarrow> s | None \<Rightarrow> ''Arial'')\<rparr>)"

text \<open>
  The properties that compute: \<^verbatim>\<open>text_height\<close> (a third of the segment height by
  default; \<open>TypeError\<close> should the stored height be \<^verbatim>\<open>None\<close>) and \<^verbatim>\<open>segment_width\<close>.
\<close>

definition text_height :: "legend_parameters \<Rightarrow> rat option" where
  "text_height p =
     (if is_text_height_default p then Some (p_segment_height p * (33 / 100))
      else p_text_height p)"

definition segment_width :: "legend_parameters \<Rightarrow> rat option" where
  "segment_width p =
     (if \<not> p_vertical p \<and> is_segment_width_default p
      then (case text_height p of None \<Rightarrow> None | Some t \<Rightarrow> Some (t * 5))
      else Some (p_segment_width p))"

text \<open>
  Running setters one after the other, as the statements of a method do: the first
  exception ends the run.
\<close>

fun run_setters ::
  "(legend_parameters \<Rightarrow> py_error option \<times> legend_parameters) list \<Rightarrow> legend_parameters
     \<Rightarrow> py_error option \<times> legend_parameters" where
  "run_setters [] p = (None, p)"
| "run_setters (s # ss) p =
     (case s p of
        (Some err, p') \<Rightarrow> (Some err, p')
      | (None, p') \<Rightarrow> run_setters ss p')"

text \<open>
  \<^verbatim>\<open>LegendParameters.__init__\<close>. The object starts with \<^verbatim>\<open>_min\<close> and \<^verbatim>\<open>_max\<close> set
  to \<^verbatim>\<open>None\<close>; every other attribute is assigned by its setter before the
  constructor returns, so the other entries of \<open>new_parameters\<close> are never read.
\<close>

definition new_parameters :: legend_parameters where
  "new_parameters =
     \<lparr>p_min = None, p_max = None, p_segment_count = 11, p_colors = [],
      p_continuous_colors = True, p_continuous_legend = False, p_title = '''',
      p_ordinal_dictionary = None, p_decimal_count = 2, p_include_larger_smaller = False,
      p_vertical = True,
      p_base_plane = \<lparr>pl_n = \<lparr>pt_x = 0, pt_y = 0, pt_z = 1\<rparr>,
                      pl_o = \<lparr>pt_x = 0, pt_y = 0, pt_z = 0\<rparr>\<rparr>,
      p_segment_height = 1, p_segment_width = 1, p_text_height = None, p_font = ''Arial'',
      is_segment_count_default = True, is_title_default = True,
      is_base_plane_default = True, is_segment_height_default = True,
      is_segment_width_default = True, is_text_height_default = True\<rparr>"

definition LegendParameters ::
  "palette \<Rightarrow> rat option \<Rightarrow> rat option \<Rightarrow> int option \<Rightarrow> color_like list option
     \<Rightarrow> string option \<Rightarrow> plane option \<Rightarrow> py_error + legend_parameters" where
  "LegendParameters pal minimum maximum seg_count cols ttl base_pl =
     (case run_setters
             [set_min minimum, set_max maximum, set_segment_count seg_count,
              set_colors pal cols, set_title ttl, set_base_plane base_pl,
              set_continuous_colors None, set_continuous_legend None,
              set_ordinal_dictionary None, set_decimal_count None,
              set_include_larger_smaller None, set_vertical None, set_segment_height None,
              set_segment_width None, set_text_height None, set_font None]
             new_parameters of
        (Some err, p) \<Rightarrow> Inl err
      | (None, p) \<Rightarrow> Inr p)"

text \<open>
  \<^verbatim>\<open>__copy__\<close> (and \<^verbatim>\<open>duplicate\<close>): a new object from the constructor, then the
  private attributes of the original.
\<close>

definition duplicate :: "palette \<Rightarrow> legend_parameters \<Rightarrow> py_error + legend_parameters" where
  "duplicate pal p =
     (case LegendParameters pal (p_min p) (p_max p) (Some (p_segment_count p))
             (Some (map AColor (p_colors p))) (Some (p_title p)) (Some (p_base_plane p)) of
        Inl err \<Rightarrow> Inl err
      | Inr new_par \<Rightarrow>
          Inr (new_par
                \<lparr>p_continuous_colors := p_continuous_colors p,
                 p_continuous_legend := p_continuous_legend p,
                 p_ordinal_dictionary := p_ordinal_dictionary p,
                 p_decimal_count := p_decimal_count p,
                 p_include_larger_smaller := p_include_larger_smaller p,
                 p_vertical := p_vertical p,
                 p_segment_height := p_segment_height p,
                 p_segment_width := p_segment_width p,
                 p_text_height := p_text_height p,
                 p_font := p_font p,
                 is_segment_count_default := is_segment_count_default p,
                 is_title_default := is_title_default p,
                 is_base_plane_default := is_base_plane_default p,
                 is_segment_height_default := is_segment_height_default p,
                 is_segment_width_default := is_segment_width_default p,
                 is_text_height_default := is_text_height_default p\<rparr>))"

section \<open>legend.py: Legend\<close>

text \<open>
  Text of numbers. \<^verbatim>\<open>str(n)\<close> for an integer; \<^verbatim>\<open>int(x)\<close>, which cuts the fraction
  off; and \<^verbatim>\<open>'%.df' % x\<close>, which rounds to \<open>d\<close> decimals (ties to the even digit)
  and raises \<open>ValueError\<close> for a negative \<open>d\<close>, since \<^verbatim>\<open>'%.-1f'\<close> is no format.
\<close>

fun nat_digits :: "nat \<Rightarrow> string" where
  "nat_digits n =
     (if n < 10 then [''0123456789'' ! n]
      else nat_digits (n div 10) @ [''0123456789'' ! (n mod 10)])"

declare nat_digits.simps [simp del]

definition str_int :: "int \<Rightarrow> string" where
  "str_int n = (if n < 0 then CHR ''-'' # nat_digits (nat (- n)) else nat_digits (nat n))"

definition int_of_number :: "rat \<Rightarrow> int" where
  "int_of_number x = (if 0 \<le> x then \<lfloor>x\<rfloor> else \<lceil>x\<rceil>)"



text \<open>\<^verbatim>\<open>min(values)\<close> and \<^verbatim>\<open>max(values)\<close>; both raise \<open>ValueError\<close> on an empty list.\<close>

definition py_min :: "rat list \<Rightarrow> py_error + rat" where
  "py_min xs = (case xs of [] \<Rightarrow> Inl ValueError | x # rest \<Rightarrow> Inr (fold min rest x))"

definition py_max :: "rat list \<Rightarrow> py_error + rat" where
  "py_max xs = (case xs of [] \<Rightarrow> Inl ValueError | x # rest \<Rightarrow> Inr (fold max rest x))"

text \<open>
  The objects of class \<^verbatim>\<open>LegendParameters\<close> live in a store: an address is an index
  of the list, a new object goes to the end. A legend refers to its parameters by
  address, as \<^verbatim>\<open>self._legend_par\<close> does.
\<close>

type_synonym heap = "legend_parameters list"

record legend =
  l_values :: "rat list"
  l_legend_par :: nat
  is_min_default :: bool
  is_max_default :: bool

text \<open>
  The defaults that \<^verbatim>\<open>Legend.__init__\<close> writes into its own parameters: the minimum
  and the maximum of the values where the parameters have none, and the width of a
  segment of a horizontal legend. The result is the exception raised, if any, the
  parameters, and the two flags.
\<close>

definition default_min :: "rat list \<Rightarrow> legend_parameters \<Rightarrow> py_error option \<times> legend_parameters" where
  "default_min vals p =
     (if p_min p = None then
        (case py_min vals of Inl err \<Rightarrow> (Some err, p) | Inr m \<Rightarrow> set_min (Some m) p)
      else (None, p))"

definition default_max :: "rat list \<Rightarrow> legend_parameters \<Rightarrow> py_error option \<times> legend_parameters" where
  "default_max vals p =
     (if p_max p = None then
        (case py_max vals of Inl err \<Rightarrow> (Some err, p) | Inr m \<Rightarrow> set_max (Some m) p)
      else (None, p))"

definition default_width :: "legend_parameters \<Rightarrow> py_error option \<times> legend_parameters" where
  "default_width p =
     (if \<not> p_vertical p \<and> is_segment_width_default p then
        (case text_height p of
           None \<Rightarrow> (Some TypeError, p)
         | Some t \<Rightarrow>
             (case p_max p of
                None \<Rightarrow> (Some TypeError, p)
              | Some mx \<Rightarrow>
                  set_segment_width
                    (Some (t * of_int (int (length (str_int (int_of_number mx)))
                                       + p_decimal_count p + 2))) p))
      else (None, p))"

text \<open>
  \<^verbatim>\<open>Legend.__init__(values, legend_parameters)\<close> in a store \<open>h\<close>: the legend works on
  a duplicate of the parameters at the given address, or on new default parameters.
  The result is the legend or the exception, and the store after the call.
\<close>

definition Legend_init ::
  "palette \<Rightarrow> heap \<Rightarrow> rat list \<Rightarrow> nat option \<Rightarrow> (py_error + legend) \<times> heap" where
  "Legend_init pal h vals legend_parameters =
     (case (case legend_parameters of
              Some a \<Rightarrow> duplicate pal (h ! a)
            | None \<Rightarrow> LegendParameters pal None None None None None None) of
        Inl err \<Rightarrow> (Inl err, h)
      | Inr par \<Rightarrow>
          (case run_setters [default_min vals, default_max vals, default_width] par of
             (Some err, par') \<Rightarrow> (Inl err, h @ [par'])
           | (None, par') \<Rightarrow>
               (Inr \<lparr>l_values = vals, l_legend_par = length h,
                     is_min_default = (p_min par = None),
                     is_max_default = (p_max par = None)\<rparr>,
                h @ [par'])))"

text \<open>The property \<^verbatim>\<open>legend_parameters\<close>.\<close>

definition legend_parameters_of :: "heap \<Rightarrow> legend \<Rightarrow> legend_parameters" where
  "legend_parameters_of h lg = h ! l_legend_par lg"

text \<open>
  The property \<^verbatim>\<open>segment_numbers\<close>. A minimum or maximum that is \<^verbatim>\<open>None\<close> raises
  \<open>TypeError\<close>, a segment count of 1 divides by zero.
\<close>

definition segment_numbers :: "heap \<Rightarrow> legend \<Rightarrow> py_error + rat list" where
  "segment_numbers h lg =
     (let l_par = legend_parameters_of h lg in
      case p_max l_par of
        None \<Rightarrow> Inl TypeError
      | Some mx \<Rightarrow>
          (case p_min l_par of
             None \<Rightarrow> Inl TypeError
           | Some mn \<Rightarrow>
               if p_segment_count l_par - 1 = 0 then Inl ZeroDivisionError
               else
                 let seg_stp = (mx - mn) / of_int (p_segment_count l_par - 1)
                 in Inr (map (\<lambda>i. mn + of_nat i * seg_stp)
                           [0..<nat (p_segment_count l_par)])))"





section \<open>graphic.py: GraphicContainer\<close>

record graphic_container =
  g_legend :: legend
  g_min_point :: point3d
  g_max_point :: point3d
  g_data_type :: "data_type option"
  g_unit :: "string option"

text \<open>
  The default title: the unit for a vertical legend, the name of the data type with
  the unit otherwise. Without a unit the base unit of the data type is taken;
  \<^verbatim>\<open>is_unit_acceptable\<close> raises \<open>ValueError\<close> for a unit that the data type does not
  list.
\<close>

definition title_from_data_type ::
  "data_type \<Rightarrow> string option \<Rightarrow> legend_parameters \<Rightarrow> py_error option \<times> legend_parameters" where
  "title_from_data_type dt unit p =
     (if is_title_default p then
        (case (case unit of
                 None \<Rightarrow> (case units dt of [] \<Rightarrow> Inl IndexError | u # _ \<Rightarrow> Inr u)
               | Some u \<Rightarrow> Inr u) of
           Inl err \<Rightarrow> (Some err, p)
         | Inr u \<Rightarrow>
             if u \<in> set (units dt) then
               set_title (Some (if p_vertical p then u else name dt @ '' ('' @ u @ '')'')) p
             else (Some ValueError, p))
      else (None, p))"

definition title_from_unit ::
  "string option \<Rightarrow> legend_parameters \<Rightarrow> py_error option \<times> legend_parameters" where
  "title_from_unit unit p =
     (case unit of
        Some u \<Rightarrow> if is_title_default p then set_title (Some u) p else (None, p)
      | None \<Rightarrow> (None, p))"

text \<open>
  \<^verbatim>\<open>sorted_keys.index(v)\<close>: the position of the first key equal to the number, \<open>None\<close>
  for the \<open>ValueError\<close> of a number that is no key.
\<close>

fun index_of :: "int list \<Rightarrow> rat \<Rightarrow> nat option" where
  "index_of [] v = None"
| "index_of (k # ks) v =
     (if of_int k = v then Some 0
      else (case index_of ks v of None \<Rightarrow> None | Some i \<Rightarrow> Some (Suc i)))"

text \<open>
  The segment count that aligns the legend with the ordinal text:
  \<^verbatim>\<open>len(sorted_keys[min_i:max_i + 1])\<close>. The \<^verbatim>\<open>except IndexError\<close> clause around it
  catches nothing: \<^verbatim>\<open>list.index\<close> raises \<open>ValueError\<close>, the setter raises
  \<open>AssertionError\<close>.
\<close>

definition align_segment_count ::
  "int list \<Rightarrow> legend_parameters \<Rightarrow> py_error option \<times> legend_parameters" where
  "align_segment_count sorted_keys p =
     (if is_segment_count_default p then
        (case (case p_min p of None \<Rightarrow> None | Some mn \<Rightarrow> index_of sorted_keys mn) of
           None \<Rightarrow> (Some ValueError, p)
         | Some min_i \<Rightarrow>
             (case (case p_max p of None \<Rightarrow> None | Some mx \<Rightarrow> index_of sorted_keys mx) of
                None \<Rightarrow> (Some ValueError, p)
              | Some max_i \<Rightarrow>
                  set_segment_count
                    (Some (int (length (drop min_i (take (max_i + 1) sorted_keys))))) p))
      else (None, p))"

text \<open>
  The defaults for a data type with categories, when the parameters have no ordinal
  dictionary: the dictionary of the data type, and the range of its keys where the
  legend took minimum, maximum or segment count by default.
\<close>

definition ordinal_from_data_type ::
  "data_type \<Rightarrow> legend \<Rightarrow> legend_parameters \<Rightarrow> py_error option \<times> legend_parameters" where
  "ordinal_from_data_type dt lg p =
     (case unit_descr dt of
        None \<Rightarrow> (None, p)
      | Some descr \<Rightarrow>
          if p_ordinal_dictionary p \<noteq> None then (None, p)
          else
            let sorted_keys = sort (map fst descr) in
            run_setters
              [set_ordinal_dictionary (Some descr),
               (\<lambda>q. if is_min_default lg then
                       (case sorted_keys of
                          [] \<Rightarrow> (Some IndexError, q)
                        | k # _ \<Rightarrow> set_min (Some (of_int k)) q)
                     else (None, q)),
               (\<lambda>q. if is_max_default lg then
                       (if sorted_keys = [] then (Some IndexError, q)
                        else set_max (Some (of_int (last sorted_keys))) q)
                     else (None, q)),
               align_segment_count sorted_keys] p)"

text \<open>The default segment height and the default base plane, from the bounding box.\<close>

definition default_segment_height ::
  "point3d \<Rightarrow> point3d \<Rightarrow> legend_parameters \<Rightarrow> py_error option \<times> legend_parameters" where
  "default_segment_height min_point max_point p =
     (if is_segment_height_default p then
        set_segment_height
          (Some (if p_vertical p then (pt_y max_point - pt_y min_point) / 20
                 else (pt_x max_point - pt_x min_point) / 20)) p
      else (None, p))"

definition default_base_plane ::
  "point3d \<Rightarrow> point3d \<Rightarrow> legend_parameters \<Rightarrow> py_error option \<times> legend_parameters" where
  "default_base_plane min_point max_point p =
     (if is_base_plane_default p then
        (if p_vertical p then
           (case segment_width p of
              None \<Rightarrow> (Some TypeError, p)
            | Some sw \<Rightarrow>
                set_base_plane
                  (Some (Plane_at \<lparr>pt_x = pt_x max_point + sw, pt_y = pt_y min_point,
                                   pt_z = pt_z min_point\<rparr>)) p)
         else
           (case text_height p of
              None \<Rightarrow> (Some TypeError, p)
            | Some t \<Rightarrow>
                set_base_plane
                  (Some (Plane_at \<lparr>pt_x = pt_x max_point, pt_y = pt_y max_point + 3 * t,
                                   pt_z = pt_z min_point\<rparr>)) p))
      else (None, p))"

text \<open>
  \<^verbatim>\<open>GraphicContainer.__init__\<close> in a store: the legend is built first, then the
  defaults are written into the parameters of the legend, in place.
\<close>

definition GraphicContainer_init ::
  "palette \<Rightarrow> heap \<Rightarrow> rat list \<Rightarrow> point3d \<Rightarrow> point3d \<Rightarrow> nat option
     \<Rightarrow> data_type option \<Rightarrow> string option \<Rightarrow> (py_error + graphic_container) \<times> heap" where
  "GraphicContainer_init pal h vals min_point max_point legend_parameters dt unit =
     (case Legend_init pal h vals legend_parameters of
        (Inl err, h1) \<Rightarrow> (Inl err, h1)
      | (Inr lg, h1) \<Rightarrow>
          (case run_setters
                  ((case dt of
                      Some d \<Rightarrow> [title_from_data_type d unit, ordinal_from_data_type d lg]
                    | None \<Rightarrow> [title_from_unit unit])
                   @ [default_segment_height min_point max_point,
                      default_base_plane min_point max_point])
                  (h1 ! l_legend_par lg) of
             (Some err, p) \<Rightarrow> (Inl err, h1[l_legend_par lg := p])
           | (None, p) \<Rightarrow>
               (Inr \<lparr>g_legend = lg, g_min_point = min_point, g_max_point = max_point,
                     g_data_type = dt, g_unit = unit\<rparr>,
                h1[l_legend_par lg := p])))"

section \<open>Notions used in the statements\<close>

text \<open>
  Whether the data type in the header of a collection is a point-in-time one; a plain
  list has no header.
\<close>

definition is_point_in_time :: "collection \<Rightarrow> bool" where
  "is_point_in_time c =
     (case c_header c of None \<Rightarrow> False | Some h \<Rightarrow> point_in_time (h_data_type h))"

text \<open>
  The collections of the given field numbers can take the alignment moves: each
  exists, has a header and, when it is point-in-time, holds at least one value.
\<close>

definition ready :: "nat list \<Rightarrow> collection list \<Rightarrow> bool" where
  "ready fnums d =
     list_all (\<lambda>i. i < length d \<and> c_header (d ! i) \<noteq> None
                  \<and> (is_point_in_time (d ! i) \<longrightarrow> c_values (d ! i) \<noteq> [])) fnums"

text \<open>
  The data with the first value of every point-in-time collection among the given
  field numbers moved to the end: the order of the file.
\<close>

definition rotated :: "nat list \<Rightarrow> collection list \<Rightarrow> collection list" where
  "rotated fnums d =
     map (\<lambda>i. if i \<in> set fnums \<and> is_point_in_time (d ! i)
               then (d ! i)\<lparr>c_values := tl (c_values (d ! i)) @ [hd (c_values (d ! i))]\<rparr>
               else d ! i) [0..<length d]"

text \<open>
  Entry \<open>i\<close> of the field table as an \<^verbatim>\<open>EPWField\<close>. It is only used for
  \<open>i < 35\<close>, where the table has the entry.
\<close>

definition field_of :: "world \<Rightarrow> nat \<Rightarrow> epw_field" where
  "field_of w i =
     (case field_by_number (type_table w) (int i) of
        Inr field \<Rightarrow> field
      | Inl err \<Rightarrow> EPWField (mk_field (GenericType [] []) TStr [] None))"

definition header_of :: "world \<Rightarrow> nat \<Rightarrow> header" where
  "header_of w i = \<lparr>h_data_type = f_name (field_of w i), h_unit = f_unit (field_of w i)\<rparr>"

definition pit_field :: "world \<Rightarrow> nat \<Rightarrow> bool" where
  "pit_field w i = point_in_time (f_name (field_of w i))"

text \<open>
  The value that the data phase reads from column \<open>i\<close> of a row, and whether every
  column of a row among the given field numbers is there and decodes.
\<close>

definition decoded_cell :: "world \<Rightarrow> nat \<Rightarrow> string list \<Rightarrow> cell" where
  "decoded_cell w i row =
     (case decode_value w (f_value_type (field_of w i)) (row ! i) of
        Inr v \<Rightarrow> v
      | Inl err \<Rightarrow> StrV (row ! i))"

definition row_ok :: "world \<Rightarrow> nat list \<Rightarrow> string list \<Rightarrow> bool" where
  "row_ok w fnums row =
     list_all (\<lambda>i. i < length row
                  \<and> decode_value w (f_value_type (field_of w i)) (row ! i)
                      = Inr (decoded_cell w i row)) fnums"

text \<open>
\<^verbatim>\<open>x = l.pop(); l.insert(0, x)\<close> on a list that is not empty.
\<close>

definition move_last :: "cell list \<Rightarrow> cell list" where
  "move_last xs = last xs # butlast xs"

text \<open>
  The number of columns the first data line sets, the decoded column \<open>i\<close> of a
  file, and the object that a successful import of a file into a fresh object leaves:
  every column in the order of the file, the point-in-time ones with their last value
  moved to the front.
\<close>

definition field_count :: "epw_file \<Rightarrow> nat" where
  "field_count f = min (length (case rows f of [] \<Rightarrow> [''''] | r # _ \<Rightarrow> r)) 35"

definition column :: "world \<Rightarrow> epw_file \<Rightarrow> nat \<Rightarrow> cell list" where
  "column w f i = map (decoded_cell w i) (rows f)"

definition imported :: "world \<Rightarrow> epw_file \<Rightarrow> epw" where
  "imported w f =
     \<lparr>file_at_path = File f, is_header_loaded = True, is_data_loaded = True, is_ip = False,
      data = map (\<lambda>i. \<lparr>c_header = Some (header_of w i),
                        c_values = (if pit_field w i then move_last (column w f i)
                                    else column w f i)\<rparr>) [0..<field_count f],
      is_leap_year = leap_flag f, num_of_fields = field_count f\<rparr>"

text \<open>
  The header lines raise nothing, every data row decodes in every column, and a file
  with no data row has no point-in-time column among its fields.
\<close>

definition import_ok :: "world \<Rightarrow> epw_file \<Rightarrow> bool" where
  "import_ok w f =
     (header_error f = None
      \<and> list_all (row_ok w [0..<field_count f]) (rows f)
      \<and> (rows f = [] \<longrightarrow> list_all (\<lambda>i. \<not> pit_field w i) [0..<field_count f]))"

text \<open>
The number of hours of the annual period of the object.
\<close>

definition annual_hours :: "world \<Rightarrow> epw \<Rightarrow> nat" where
  "annual_hours w e = length (datetimes (year_of w (is_leap_year e)) (is_leap_year e))"

text \<open>
  The text that \<^verbatim>\<open>save\<close> hands to the writer for an object whose collections are
  complete: the header lines, then one line per hour from the data in the order of the
  file.
\<close>

definition file_text :: "world \<Rightarrow> string list \<Rightarrow> epw \<Rightarrow> string" where
  "file_text w lines e =
     concat (lines @
       map (\<lambda>hour. text_line
              (map (\<lambda>i. str_of w (c_values (rotated [0..<num_of_fields e] (data e) ! i) ! hour))
                 [0..<num_of_fields e]))
         [0..<annual_hours w e])"

text \<open>
The object after \<^verbatim>\<open>convert_to_si\<close>, for an object whose data are loaded.
\<close>

definition in_si :: "world \<Rightarrow> epw \<Rightarrow> epw" where
  "in_si w e = (if is_ip e then e\<lparr>data := map (collection_to_si w) (data e), is_ip := False\<rparr> else e)"

text \<open>
  The parameters pass the checks of the constructor: the minimum is not above the
  maximum, there are at least two segments and at least two colours. And: two
  parameter objects agree on the range of the legend.
\<close>

definition valid_parameters :: "legend_parameters \<Rightarrow> bool" where
  "valid_parameters p =
     ((case p_min p of None \<Rightarrow> True
       | Some mn \<Rightarrow> (case p_max p of None \<Rightarrow> True | Some mx \<Rightarrow> mn \<le> mx))
      \<and> 2 \<le> p_segment_count p \<and> 1 < length (p_colors p))"

definition same_range :: "legend_parameters \<Rightarrow> legend_parameters \<Rightarrow> bool" where
  "same_range p q =
     (p_min q = p_min p \<and> p_max q = p_max p \<and> p_segment_count q = p_segment_count p
      \<and> is_segment_count_default q = is_segment_count_default p
      \<and> p_ordinal_dictionary q = p_ordinal_dictionary p)"

section \<open>Sample inputs\<close>

text \<open>
  Concrete inputs for the closed theorems below: a class table for the data type
  modules that are not among the sources (radiation quantities are sums over the
  hour, every other quantity is a reading at one instant), and an enumeration that
  knows the class Temperature and the generic class.
\<close>

definition sample_variant :: "string \<Rightarrow> data_type" where
  "sample_variant cls =
     \<lparr>class_name = cls, name_attr = None, units = [''SI'', ''IP''],
      dt_min = NegInf, dt_max = PosInf, dt_abbreviation = '''', unit_descr = None,
      point_in_time = (cls \<notin> {''GlobalHorizontalRadiation'', ''DirectNormalRadiation'',
                                 ''DiffuseHorizontalRadiation''}),
      cumulative = False\<rparr>"

definition sample_temperature :: data_type where
  "sample_temperature =
     \<lparr>class_name = ''Temperature'', name_attr = None, units = [''C'', ''F'', ''K''],
      dt_min = Finite (- 27315 / 100), dt_max = PosInf, dt_abbreviation = ''T'',
      unit_descr = None, point_in_time = True, cumulative = False\<rparr>"

definition sample_enum :: enumeration where
  "sample_enum =
     \<lparr>TYPES = (\<lambda>tag. if tag = ''Temperature'' then Some sample_temperature else None),
      GENERICTYPE = Some GenericType\<rparr>"

text \<open>
  A world for the closed theorems: \<^verbatim>\<open>int\<close> reads three tokens, \<^verbatim>\<open>float\<close> reads
  none, the unit conversions leave a collection as it is and the writer never fails.
  \<open>sample_epw\<close> is a loaded object with the single field Year; \<open>sample_file\<close> is a
  file of 8760 data lines with one column, whose first line reads 1 and whose last
  line reads 24.
\<close>

definition sample_world :: world where
  "sample_world =
     \<lparr>type_table = sample_variant,
      int_of_str = (\<lambda>s. if s = ''2017'' then Some 2017 else if s = ''1'' then Some 1
                         else if s = ''24'' then Some 24 else None),
      float_of_str = (\<lambda>s. None),
      round_to_int = (\<lambda>x. \<lfloor>x + 1 / 2\<rfloor>),
      str_of = (\<lambda>c. case c of IntV n \<Rightarrow> (if n = 2017 then ''2017'' else ''0'')
                       | FloatV x \<Rightarrow> ''0.0'' | StrV s \<Rightarrow> s),
      collection_to_si = (\<lambda>c. c),
      collection_to_ip = (\<lambda>c. c),
      write_to_file = (\<lambda>path text. None),
      year_of = (\<lambda>leap. if leap then 2016 else 2017)\<rparr>"



definition sample_file :: epw_file where
  "sample_file =
     \<lparr>header_error = None, leap_flag = False,
      rows = [''1''] # replicate 8758 [''2017''] @ [[''24'']]\<rparr>"

text \<open>
  For the legend: a palette whose colour constructor never fails; the parameters of
  \<^verbatim>\<open>LegendParameters(segment_count=6)\<close> and of \<^verbatim>\<open>LegendParameters()\<close>; the legend of
  the values 0 to 9; and a data type with the three categories of the docstring of
  \<^verbatim>\<open>unit_descr\<close>, with the container built for it from the values -1/2 and 0 and
  parameters whose maximum the user set to 0.
\<close>

definition sample_palette :: palette where
  "sample_palette =
     \<lparr>new_color = (\<lambda>r g b. Some (Color r g b)),
      original = [Color 75 107 169, Color 115 147 202, Color 170 200 247, Color 234 38 0]\<rparr>"

definition six_segments :: legend_parameters where
  "six_segments =
     \<lparr>p_min = None, p_max = None, p_segment_count = 6,
      p_colors = [Color 75 107 169, Color 115 147 202, Color 170 200 247, Color 234 38 0],
      p_continuous_colors = True, p_continuous_legend = False, p_title = '''',
      p_ordinal_dictionary = None, p_decimal_count = 2, p_include_larger_smaller = False,
      p_vertical = True,
      p_base_plane = \<lparr>pl_n = \<lparr>pt_x = 0, pt_y = 0, pt_z = 1\<rparr>,
                      pl_o = \<lparr>pt_x = 0, pt_y = 0, pt_z = 0\<rparr>\<rparr>,
      p_segment_height = 1, p_segment_width = 1, p_text_height = None, p_font = ''Arial'',
      is_segment_count_default = False, is_title_default = True,
      is_base_plane_default = True, is_segment_height_default = True,
      is_segment_width_default = True, is_text_height_default = True\<rparr>"


definition default_parameters :: legend_parameters where
  "default_parameters = six_segments\<lparr>p_segment_count := 11, is_segment_count_default := True\<rparr>"

definition thermal_condition :: data_type where
  "thermal_condition =
     \<lparr>class_name = ''ThermalCondition'', name_attr = None, units = [''condition''],
      dt_min = NegInf, dt_max = PosInf, dt_abbreviation = ''Tcond'',
      unit_descr = Some [(- 1, ''Cold''), (0, ''Neutral''), (1, ''Hot'')],
      point_in_time = True, cumulative = False\<rparr>"

definition box_min :: point3d where
  "box_min = \<lparr>pt_x = 0, pt_y = 0, pt_z = 0\<rparr>"

definition box_max :: point3d where
  "box_max = \<lparr>pt_x = 10, pt_y = 10, pt_z = 0\<rparr>"

definition sample_container_parameters :: legend_parameters where
  "sample_container_parameters =
     default_parameters
       \<lparr>p_min := Some (- 1), p_max := Some 0, p_segment_count := 2,
        is_segment_count_default := False, p_title := ''condition'',
        is_title_default := False,
        p_ordinal_dictionary := Some [(- 1, ''Cold''), (0, ''Neutral''), (1, ''Hot'')],
        p_segment_height := 1 / 2, is_segment_height_default := False,
        p_base_plane := Plane_at \<lparr>pt_x = 11, pt_y = 0, pt_z = 0\<rparr>,
        is_base_plane_default := False\<rparr>"

definition sample_container :: graphic_container where
  "sample_container =
     \<lparr>g_legend = \<lparr>l_values = [- 1 / 2, 0], l_legend_par = 1,
                   is_min_default = True, is_max_default = False\<rparr>,
      g_min_point = box_min, g_max_point = box_max,
      g_data_type = Some thermal_condition, g_unit = None\<rparr>"

section \<open>Verified properties: the field table\<close>

lemma FIELDS_keys: "map fst (FIELDS variant) = [0..34]"
  by (simp add: FIELDS_def upto.simps)

lemma FIELDS_undefined_iff: "map_of (FIELDS variant) n = None \<longleftrightarrow> (n < 0 \<or> 34 < n)"
proof -
  have "map_of (FIELDS variant) n = None \<longleftrightarrow> n \<notin> set (map fst (FIELDS variant))"
    by (simp add: map_of_eq_None_iff)
  also have "\<dots> \<longleftrightarrow> n \<notin> set [0..34]"
    by (simp only: FIELDS_keys)
  also have "\<dots> \<longleftrightarrow> (n < 0 \<or> 34 < n)"
    by auto
  finally show ?thesis .
qed

text \<open>
  C9 (as stated): \<^verbatim>\<open>field_by_number(n)\<close> fails with an IndexError for every \<open>n\<close>
  outside 0 to 34. It does not: the table is a dictionary, and field 35 (or -1) is a
  missing key, a \<open>KeyError\<close>.
\<close>

theorem field_by_number_35_not_IndexError:
  "field_by_number sample_variant 35 = Inl KeyError
   \<and> field_by_number sample_variant 35 \<noteq> Inl IndexError
   \<and> field_by_number sample_variant (- 1) = Inl KeyError"
  by (simp add: field_by_number_def FIELDS_def)

text \<open>
  C9 (amended): for every \<open>n\<close> from 0 to 34 \<^verbatim>\<open>field_by_number(n)\<close> returns the
  descriptor built from entry \<open>n\<close> of the table (its data type, value type, unit and
  missing value), and for every other integer it fails with \<open>KeyError\<close>.
\<close>

theorem field_by_number_descriptor_or_KeyError:
  "(0 \<le> n \<and> n \<le> 34 \<longrightarrow>
      (\<exists>fd. map_of (FIELDS variant) n = Some fd
         \<and> field_by_number variant n =
             Inr \<lparr>f_name = fd_name fd, f_value_type = fd_type fd,
                  f_unit = fd_unit fd, f_missing = fd_missing fd\<rparr>))
   \<and> (n < 0 \<or> 34 < n \<longrightarrow> field_by_number variant n = Inl KeyError)"
proof (intro conjI impI)
  assume "0 \<le> n \<and> n \<le> 34"
  then have "map_of (FIELDS variant) n \<noteq> None"
    by (simp add: FIELDS_undefined_iff)
  then obtain fd where fd: "map_of (FIELDS variant) n = Some fd"
    by blast
  have "field_by_number variant n =
          Inr \<lparr>f_name = fd_name fd, f_value_type = fd_type fd,
               f_unit = fd_unit fd, f_missing = fd_missing fd\<rparr>"
    by (simp add: field_by_number_def fd EPWField_def split: option.split)
  with fd show "\<exists>fd. map_of (FIELDS variant) n = Some fd
         \<and> field_by_number variant n =
             Inr \<lparr>f_name = fd_name fd, f_value_type = fd_type fd,
                  f_unit = fd_unit fd, f_missing = fd_missing fd\<rparr>"
    by blast
next
  assume "n < 0 \<or> 34 < n"
  then have "map_of (FIELDS variant) n = None"
    by (simp add: FIELDS_undefined_iff)
  then show "field_by_number variant n = Inl KeyError"
    by (simp add: field_by_number_def)
qed

theorem field_by_number_descriptor_or_KeyError_witness:
  "(0::int) \<le> 6 \<and> (6::int) \<le> 34
   \<and> field_by_number sample_variant 6 =
       Inr \<lparr>f_name = sample_variant ''DryBulbTemperature'', f_value_type = TFloat,
            f_unit = Some ''C'', f_missing = Some (FloatV (999 / 10))\<rparr>
   \<and> (34::int) < 36 \<and> field_by_number sample_variant 36 = Inl KeyError"
  using field_by_number_descriptor_or_KeyError [of 6 sample_variant]
    field_by_number_descriptor_or_KeyError [of 36 sample_variant]
  by (simp add: FIELDS_def mk_field_def)

section \<open>Verified properties: serialising a data type\<close>

text \<open>
  C7 (as stated): deserialising the serialised form gives an instance with the same
  name. It does not when a custom name differs from the class name only by case or
  spaces: a Temperature named temperature comes back as the canonical instance,
  whose name is Temperature.
\<close>

theorem round_trip_loses_custom_name:
  "round_trip sample_enum (sample_temperature\<lparr>name_attr := Some ''temperature''\<rparr>)
     = Inr sample_temperature
   \<and> name (sample_temperature\<lparr>name_attr := Some ''temperature''\<rparr>) = ''temperature''
   \<and> name sample_temperature = ''Temperature''"
  by (simp add: round_trip_def to_dict_def from_dict_def sample_enum_def
      sample_temperature_def name_def title_def remove_spaces_def
      is_upper_def is_lower_def is_word_char_def is_digit_def to_upper_def to_lower_def
      upper_letters_def lower_letters_def)

text \<open>
  C7 (amended): for an instance \<open>d\<close> of a registered class other than the generic one,
  \<^verbatim>\<open>from_dict(d.to_dict())\<close> succeeds and returns the canonical instance of the
  class when the class name equals the serialised name in title case with the spaces
  removed, and the canonical instance with the name overridden otherwise; class,
  units and bounds are those of \<open>d\<close>, and the name is that of \<open>d\<close> whenever \<open>d\<close>
  has its default display name or the comparison fails. A generic instance comes
  back unchanged. A type tag that is neither the generic class nor a registered class
  fails with \<open>ValueError\<close>.
\<close>

theorem round_trip_equivalent_instance:
  "(class_name d \<noteq> ''GenericType'' \<and> TYPES enum (class_name d) = Some (d\<lparr>name_attr := None\<rparr>)
      \<and> units d \<noteq> [] \<longrightarrow>
      (\<exists>d'. round_trip enum d = Inr d'
         \<and> d' = (if class_name d = remove_spaces (title (name d))
                 then d\<lparr>name_attr := None\<rparr> else d\<lparr>name_attr := Some (name d)\<rparr>)
         \<and> class_name d' = class_name d \<and> units d' = units d
         \<and> dt_min d' = dt_min d \<and> dt_max d' = dt_max d
         \<and> (name d = space_capitals None (class_name d)
              \<or> class_name d \<noteq> remove_spaces (title (name d)) \<longrightarrow> name d' = name d)))
   \<and> (GENERICTYPE enum = Some GenericType \<longrightarrow>
        round_trip enum (GenericType n u) = Inr (GenericType n u))
   \<and> (d_name dct = Some nm \<and> d_data_type dct = Some tag \<and> tag \<noteq> ''GenericType''
        \<and> TYPES enum tag = None \<longrightarrow> from_dict enum dct = Inl ValueError)"
proof (intro conjI impI)
  assume a: "class_name d \<noteq> ''GenericType''
      \<and> TYPES enum (class_name d) = Some (d\<lparr>name_attr := None\<rparr>) \<and> units d \<noteq> []"
  let ?d' = "if class_name d = remove_spaces (title (name d))
             then d\<lparr>name_attr := None\<rparr> else d\<lparr>name_attr := Some (name d)\<rparr>"
  from a have rt: "round_trip enum d = Inr ?d'"
    by (cases "units d") (simp_all add: round_trip_def to_dict_def from_dict_def)
  have keep: "class_name ?d' = class_name d \<and> units ?d' = units d
      \<and> dt_min ?d' = dt_min d \<and> dt_max ?d' = dt_max d"
    by simp
  have nm: "name d = space_capitals None (class_name d)
      \<or> class_name d \<noteq> remove_spaces (title (name d)) \<longrightarrow> name ?d' = name d"
    by (auto simp: name_def)
  from rt keep nm
  show "\<exists>d'. round_trip enum d = Inr d'
         \<and> d' = ?d'
         \<and> class_name d' = class_name d \<and> units d' = units d
         \<and> dt_min d' = dt_min d \<and> dt_max d' = dt_max d
         \<and> (name d = space_capitals None (class_name d)
              \<or> class_name d \<noteq> remove_spaces (title (name d)) \<longrightarrow> name d' = name d)"
    by blast
next
  assume "GENERICTYPE enum = Some GenericType"
  then show "round_trip enum (GenericType n u) = Inr (GenericType n u)"
    by (simp add: round_trip_def to_dict_def from_dict_def GenericType_def name_def)
next
  assume "d_name dct = Some nm \<and> d_data_type dct = Some tag \<and> tag \<noteq> ''GenericType''
        \<and> TYPES enum tag = None"
  then show "from_dict enum dct = Inl ValueError"
    by (simp add: from_dict_def)
qed

theorem round_trip_equivalent_instance_witness:
  "class_name sample_temperature \<noteq> ''GenericType''
   \<and> TYPES sample_enum (class_name sample_temperature)
       = Some (sample_temperature\<lparr>name_attr := None\<rparr>)
   \<and> units sample_temperature \<noteq> []
   \<and> round_trip sample_enum sample_temperature = Inr sample_temperature
   \<and> name sample_temperature = space_capitals None (class_name sample_temperature)
   \<and> GENERICTYPE sample_enum = Some GenericType
   \<and> round_trip sample_enum (GenericType ''Year'' ''yr'') = Inr (GenericType ''Year'' ''yr'')
   \<and> TYPES sample_enum ''Humidity'' = None
   \<and> from_dict sample_enum
        \<lparr>d_name = Some ''Humidity'', d_data_type = Some ''Humidity'',
         d_base_unit = Some ''%'', d_type = Some ''DataTypeBase''\<rparr> = Inl ValueError"
  using round_trip_equivalent_instance [of sample_temperature sample_enum "''Year''" "''yr''"
      "\<lparr>d_name = Some ''Humidity'', d_data_type = Some ''Humidity'',
        d_base_unit = Some ''%'', d_type = Some ''DataTypeBase''\<rparr>" "''Humidity''" "''Humidity''"]
  by (simp add: sample_enum_def sample_temperature_def name_def title_def remove_spaces_def
      is_upper_def is_lower_def is_word_char_def is_digit_def to_upper_def to_lower_def
      upper_letters_def lower_letters_def)

section \<open>Verified properties: an object of missing values\<close>

lemma length_hours_of_month: "length (hours_of_month y (m, n)) = 24 * n"
  by (simp add: hours_of_month_def hours_of_day_def length_concat comp_def sum_list_triv)

lemma length_datetimes: "length (datetimes y leap) = (if leap then 8784 else 8760)"
  by (simp add: datetimes_def days_in_month_def length_concat comp_def upt_conv_Cons
      length_hours_of_month)

lemma r35: "replicate 35 x = [x,x,x,x,x, x,x,x,x,x, x,x,x,x,x, x,x,x,x,x, x,x,x,x,x, x,x,x,x,x, x,x,x,x,x]"
  by (simp add: numeral_eq_Suc)

lemma upt35: "[0..<35] = [0,1,2,3,4,5,6,7,8,9,10,11,12,13,14,15,16,17,18,19,20,21,22,23,24,25,26,27,28,29,30,31,32,33,34]"
  by (simp add: upt_conv_Cons)

lemma upt6_35: "[6..<35] = [6,7,8,9,10,11,12,13,14,15,16,17,18,19,20,21,22,23,24,25,26,27,28,29,30,31,32,33,34]"
  by (simp add: upt_conv_Cons)

lemma fill_datetimes_cols:
  "fill_datetimes dts (c0 # c1 # c2 # c3 # c4 # c5 # rest) =
     (None,
      c0\<lparr>c_values := c_values c0 @ map (\<lambda>dt. IntV (dt_year dt)) dts\<rparr>
      # c1\<lparr>c_values := c_values c1 @ map (\<lambda>dt. IntV (int (dt_month dt))) dts\<rparr>
      # c2\<lparr>c_values := c_values c2 @ map (\<lambda>dt. IntV (int (dt_day dt))) dts\<rparr>
      # c3\<lparr>c_values := c_values c3 @ map (\<lambda>dt. IntV (int (if dt_hour dt \<noteq> 0 then dt_hour dt else 24))) dts\<rparr>
      # c4\<lparr>c_values := c_values c4 @ map (\<lambda>dt. IntV 0) dts\<rparr>
      # c5\<lparr>c_values := c_values c5 @ map (\<lambda>dt. StrV uncertainty) dts\<rparr>
      # rest)"
  by (induction dts arbitrary: c0 c1 c2 c3 c4 c5) (simp_all add: append_value_def Let_def)

text \<open>
  C4: \<^verbatim>\<open>from_missing_values\<close> returns an object of exactly 35 series, each as long
  as the annual period (8760 hours, 8784 in a leap year). Fields 0 to 5 hold the year,
  month, day, hour (24 at midnight), minute 0 and the uncertainty flags of every
  datetime; every entry of fields 6 to 34 is the missing value that the field table
  declares for the field (each of these fields declares one). The object is marked as
  loaded and has no file, so nothing is read.
\<close>

theorem from_missing_values_series:
  "\<exists>e. from_missing_values w leap = Inr e
     \<and> length (data e) = 35
     \<and> map (\<lambda>c. length (c_values c)) (data e) = replicate 35 (if leap then 8784 else 8760)
     \<and> take 6 (map c_values (data e)) =
          [map (\<lambda>dt. IntV (dt_year dt)) (datetimes (year_of w leap) leap),
           map (\<lambda>dt. IntV (int (dt_month dt))) (datetimes (year_of w leap) leap),
           map (\<lambda>dt. IntV (int (dt_day dt))) (datetimes (year_of w leap) leap),
           map (\<lambda>dt. IntV (int (if dt_hour dt \<noteq> 0 then dt_hour dt else 24)))
             (datetimes (year_of w leap) leap),
           map (\<lambda>dt. IntV 0) (datetimes (year_of w leap) leap),
           map (\<lambda>dt. StrV uncertainty) (datetimes (year_of w leap) leap)]
     \<and> drop 6 (map c_values (data e)) =
          map (replicate (length (datetimes (year_of w leap) leap)))
            [FloatV (999 / 10), FloatV (999 / 10), IntV 999, IntV 999999, IntV 9999,
             IntV 9999, IntV 9999, IntV 9999, IntV 9999, IntV 9999, IntV 999999,
             IntV 999999, IntV 999999, IntV 9999, IntV 999, IntV 999, IntV 99, IntV 99,
             IntV 9999, IntV 99999, IntV 9, IntV 999999999, IntV 999, IntV 999, IntV 999,
             IntV 99, IntV 999, IntV 999, IntV 99]
     \<and> is_data_loaded e \<and> is_header_loaded e \<and> file_at_path e = NoPath
     \<and> is_leap_year e = leap \<and> \<not> is_ip e"
  by (simp add: from_missing_values_def EPW_init_def Let_def upt35 upt6_35 r35
      fill_datetimes_cols field_by_number_def FIELDS_def mk_field_def EPWField_def
      length_datetimes)

section \<open>Verified properties: the alignment moves of save\<close>

lemma shift_fields_length: "length (snd (shift_fields mv fnums d)) = length d"
  by (induction fnums arbitrary: d) (auto split: option.splits sum.splits)

lemma shift_fields_other:
  "j \<notin> set fnums \<Longrightarrow> snd (shift_fields mv fnums d) ! j = d ! j"
  by (induction fnums arbitrary: d) (auto split: option.splits sum.splits)

lemma shift_fields_frame:
  "j \<notin> set fnums \<Longrightarrow>
     shift_fields mv fnums (d[j := x]) =
       (fst (shift_fields mv fnums d), (snd (shift_fields mv fnums d))[j := x])"
proof (induction fnums arbitrary: d)
  case Nil
  then show ?case by simp
next
  case (Cons i fnums)
  then have ij: "i \<noteq> j" and j: "j \<notin> set fnums" by auto
  show ?case
    using ij Cons.IH [OF j]
    by (auto simp: list_update_swap [of j i] split: option.splits sum.splits)
qed

lemma last_to_front_first_to_end:
  "first_to_end xs = Inr ys \<Longrightarrow> last_to_front ys = Inr xs"
  by (cases xs) (auto simp: first_to_end_def last_to_front_def)

lemma first_to_end_last_to_front:
  "last_to_front xs = Inr ys \<Longrightarrow> first_to_end ys = Inr xs"
  by (cases xs rule: rev_cases) (auto simp: first_to_end_def last_to_front_def)

lemma first_to_end_error: "first_to_end xs = Inl err \<Longrightarrow> xs = [] \<and> err = IndexError"
  by (cases xs) (auto simp: first_to_end_def)

text \<open>
  The loop of the \<^verbatim>\<open>finally\<close> clause undoes whatever the loop of the \<^verbatim>\<open>try\<close>
  block did, and stops with the same exception where that loop stopped.
\<close>

lemma shift_back:
  "distinct fnums \<Longrightarrow> shift_fields first_to_end fnums d = (r, d1) \<Longrightarrow>
     shift_fields last_to_front fnums d1 = (r, d)"
proof (induction fnums arbitrary: d r d1)
  case Nil
  then show ?case by simp
next
  case (Cons i fnums)
  from Cons.prems have i: "i \<notin> set fnums" and dist: "distinct fnums" by auto
  show ?case
  proof (cases "length d \<le> i")
    case True
    with Cons.prems show ?thesis by auto
  next
    case len: False
    show ?thesis
    proof (cases "c_header (d ! i)")
      case None
      with len Cons.prems show ?thesis by auto
    next
      case (Some h)
      show ?thesis
      proof (cases "point_in_time (h_data_type h)")
        case False
        with len Some Cons.prems have fwd: "shift_fields first_to_end fnums d = (r, d1)" by simp
        from Cons.IH [OF dist this] have bk: "shift_fields last_to_front fnums d1 = (r, d)" .
        have "d1 ! i = d ! i"
          using shift_fields_other [OF i, of first_to_end d] fwd by simp
        moreover have "length d1 = length d"
          using shift_fields_length [of first_to_end fnums d] fwd by simp
        ultimately show ?thesis using len Some False bk by simp
      next
        case True
        show ?thesis
        proof (cases "first_to_end (c_values (d ! i))")
          case (Inl err)
          then have "c_values (d ! i) = []" "err = IndexError"
            using first_to_end_error by auto
          with len Some True Inl Cons.prems show ?thesis
            by (auto simp: last_to_front_def)
        next
          case (Inr vs)
          let ?d' = "d[i := (d ! i)\<lparr>c_values := vs\<rparr>]"
          from len Some True Inr Cons.prems
          have fwd: "shift_fields first_to_end fnums ?d' = (r, d1)" by simp
          from Cons.IH [OF dist this] have bk: "shift_fields last_to_front fnums d1 = (r, ?d')" .
          have d1i: "d1 ! i = (d ! i)\<lparr>c_values := vs\<rparr>"
            using shift_fields_other [OF i, of first_to_end ?d'] fwd len by simp
          have len1: "length d1 = length d"
            using shift_fields_length [of first_to_end fnums ?d'] fwd by simp
          have l2f: "last_to_front vs = Inr (c_values (d ! i))"
            using Inr by (rule last_to_front_first_to_end)
          have "shift_fields last_to_front (i # fnums) d1 =
                  shift_fields last_to_front fnums (d1[i := d ! i])"
            using len len1 d1i Some True l2f by simp
          also have "\<dots> = (r, ?d'[i := d ! i])"
            using shift_fields_frame [OF i, of last_to_front d1 "d ! i"] bk by simp
          also have "?d'[i := d ! i] = d" by simp
          finally show ?thesis .
        qed
      qed
    qed
  qed
qed

lemma rotated_nth:
  "i < length d \<Longrightarrow> rotated fnums d ! i =
     (if i \<in> set fnums \<and> is_point_in_time (d ! i)
      then (d ! i)\<lparr>c_values := tl (c_values (d ! i)) @ [hd (c_values (d ! i))]\<rparr> else d ! i)"
  by (simp add: rotated_def)

lemma length_rotated: "length (rotated fnums d) = length d"
  by (simp add: rotated_def)

lemma rotated_Nil: "rotated [] d = d"
  by (rule nth_equalityI) (simp_all add: rotated_def)

lemma shift_fields_ready:
  "distinct fnums \<Longrightarrow> ready fnums d \<Longrightarrow>
     shift_fields first_to_end fnums d = (None, rotated fnums d)"
proof (induction fnums arbitrary: d)
  case Nil
  then show ?case by (simp add: rotated_Nil)
next
  case (Cons i fnums)
  from Cons.prems have i: "i \<notin> set fnums" and dist: "distinct fnums"
    and len: "i < length d" and rest: "ready fnums d"
    by (auto simp: ready_def)
  from Cons.prems obtain h where h: "c_header (d ! i) = Some h"
    by (auto simp: ready_def)
  show ?case
  proof (cases "point_in_time (h_data_type h)")
    case False
    then have npit: "\<not> is_point_in_time (d ! i)" by (simp add: is_point_in_time_def h)
    have "rotated (i # fnums) d = rotated fnums d"
      by (rule nth_equalityI) (auto simp: rotated_def npit)
    with Cons.IH [OF dist rest] False h len show ?thesis by simp
  next
    case True
    then have pit: "is_point_in_time (d ! i)" by (simp add: is_point_in_time_def h)
    with Cons.prems have ne: "c_values (d ! i) \<noteq> []" by (simp add: ready_def)
    then obtain x xs where vs: "c_values (d ! i) = x # xs" by (cases "c_values (d ! i)") auto
    let ?c = "(d ! i)\<lparr>c_values := xs @ [x]\<rparr>"
    have step: "shift_fields first_to_end (i # fnums) d
                  = shift_fields first_to_end fnums (d[i := ?c])"
      using len h True vs by (simp add: first_to_end_def)
    also have "\<dots> = (fst (shift_fields first_to_end fnums d),
                     (snd (shift_fields first_to_end fnums d))[i := ?c])"
      by (rule shift_fields_frame [OF i])
    also have "\<dots> = (None, (rotated fnums d)[i := ?c])"
      using Cons.IH [OF dist rest] by simp
    also have "(rotated fnums d)[i := ?c] = rotated (i # fnums) d"
    proof (rule nth_equalityI)
      show "length ((rotated fnums d)[i := ?c]) = length (rotated (i # fnums) d)"
        by (simp add: length_rotated)
    next
      fix k
      assume "k < length ((rotated fnums d)[i := ?c])"
      then have k: "k < length d" by (simp add: length_rotated)
      then show "(rotated fnums d)[i := ?c] ! k = rotated (i # fnums) d ! k"
        using len pit vs by (cases "k = i") (simp_all add: rotated_nth length_rotated)
    qed
    finally show ?thesis .
  qed
qed

lemma line_cells_ok:
  "list_all (\<lambda>i. i < length d \<and> c_header (d ! i) \<noteq> None \<and> hour < length (c_values (d ! i))) fnums
   \<Longrightarrow> line_cells w fnums hour d = Inr (map (\<lambda>i. str_of w (c_values (d ! i) ! hour)) fnums)"
  by (induction fnums) auto

lemma data_lines_ok:
  "list_all (\<lambda>hour. list_all (\<lambda>i. i < length d \<and> c_header (d ! i) \<noteq> None
                                  \<and> hour < length (c_values (d ! i))) fnums) hours
   \<Longrightarrow> data_lines w fnums hours d =
        Inr (map (\<lambda>hour. text_line (map (\<lambda>i. str_of w (c_values (d ! i) ! hour)) fnums)) hours)"
  by (induction hours) (auto simp: line_cells_ok)





text \<open>
  On every exit of the \<^verbatim>\<open>try\<close> statement the object is as it was before the
  statement: the alignment is restored whether the lines were written, the writer
  failed or an exception was raised.
\<close>

lemma save_try_statement_restores:
  "fst (snd (save_try_statement w lines e file_path)) = e"
proof -
  obtain r d1 where fwd: "shift_fields first_to_end [0..<num_of_fields e] (data e) = (r, d1)"
    by (cases "shift_fields first_to_end [0..<num_of_fields e] (data e)")
  have bk: "shift_fields last_to_front [0..<num_of_fields e] d1 = (r, data e)"
    by (rule shift_back [OF distinct_upt fwd])
  show ?thesis
    using fwd bk
    by (simp add: save_try_statement_def save_try_block_def Let_def
        split: option.splits sum.splits prod.splits)
qed

lemma annual_hours_pos: "0 < annual_hours w e"
  by (simp add: annual_hours_def length_datetimes)

lemma try_block_ok:
  assumes rdy: "ready fnums d" and dist: "distinct fnums"
    and long: "list_all (\<lambda>i. n \<le> length (c_values (d ! i))) fnums"
  shows "save_try_block w fnums [0..<n] d =
           (Inr (map (\<lambda>hour. text_line
                     (map (\<lambda>i. str_of w (c_values (rotated fnums d ! i) ! hour)) fnums)) [0..<n]),
            rotated fnums d)"
proof -
  have sh: "shift_fields first_to_end fnums d = (None, rotated fnums d)"
    by (rule shift_fields_ready [OF dist rdy])
  have "\<And>i. i \<in> set fnums \<Longrightarrow>
          i < length d \<and> c_header (rotated fnums d ! i) \<noteq> None
          \<and> n \<le> length (c_values (rotated fnums d ! i))"
  proof -
    fix i
    assume i: "i \<in> set fnums"
    with rdy have len: "i < length d" and h: "c_header (d ! i) \<noteq> None"
      and ne: "is_point_in_time (d ! i) \<longrightarrow> c_values (d ! i) \<noteq> []"
      by (auto simp: ready_def list_all_iff)
    from long i have n: "n \<le> length (c_values (d ! i))" by (auto simp: list_all_iff)
    show "i < length d \<and> c_header (rotated fnums d ! i) \<noteq> None
          \<and> n \<le> length (c_values (rotated fnums d ! i))"
      using len h ne n by (auto simp: rotated_nth)
  qed
  then have "list_all (\<lambda>hour. list_all (\<lambda>i. i < length (rotated fnums d)
                \<and> c_header (rotated fnums d ! i) \<noteq> None
                \<and> hour < length (c_values (rotated fnums d ! i))) fnums) [0..<n]"
    by (fastforce simp: list_all_iff length_rotated)
  from data_lines_ok [OF this, of w] sh show ?thesis
    by (simp add: save_try_block_def)
qed

lemma try_statement_ok:
  assumes "ready [0..<num_of_fields e] (data e)"
    and "list_all (\<lambda>i. annual_hours w e \<le> length (c_values (data e ! i))) [0..<num_of_fields e]"
  shows "save_try_statement w lines e file_path =
           (write_to_file w file_path (file_text w lines e), e,
            Some (file_path, file_text w lines e))"
proof -
  have blk: "save_try_block w [0..<num_of_fields e] [0..<annual_hours w e] (data e) =
           (Inr (map (\<lambda>hour. text_line
                     (map (\<lambda>i. str_of w (c_values (rotated [0..<num_of_fields e] (data e) ! i) ! hour))
                        [0..<num_of_fields e])) [0..<annual_hours w e]),
            rotated [0..<num_of_fields e] (data e))"
    by (rule try_block_ok [OF assms(1) distinct_upt assms(2)])
  have sh: "shift_fields first_to_end [0..<num_of_fields e] (data e)
              = (None, rotated [0..<num_of_fields e] (data e))"
    by (rule shift_fields_ready [OF distinct_upt assms(1)])
  have bk: "shift_fields last_to_front [0..<num_of_fields e] (rotated [0..<num_of_fields e] (data e))
              = (None, data e)"
    by (rule shift_back [OF distinct_upt sh])
  show ?thesis
    using blk bk
    by (simp add: save_try_statement_def Let_def annual_hours_def [symmetric] file_text_def)
qed



section \<open>Verified properties: save and the unit mode\<close>




lemma save_loaded:
  assumes "is_data_loaded e"
  shows "save w (Inr lines) e file_path =
          (case save_try_statement w lines (in_si w e) file_path of
             (Some err, e3, handed) \<Rightarrow> (Inl err, in_si w e, handed)
           | (None, e3, handed) \<Rightarrow>
               (Inr file_path,
                (if is_ip e
                 then (in_si w e)\<lparr>data := map (collection_to_ip w) (data (in_si w e)), is_ip := True\<rparr>
                 else e), handed))"
proof -
  obtain r e3 handed where st: "save_try_statement w lines (in_si w e) file_path = (r, e3, handed)"
    by (cases "save_try_statement w lines (in_si w e) file_path")
  have e3: "e3 = in_si w e"
    using save_try_statement_restores [of w lines "in_si w e" file_path] st by simp
  show ?thesis
    using assms st e3
    by (cases r) (auto simp: save_def convert_to_si_def convert_to_ip_def in_si_def)
qed











section \<open>Verified properties: the import of the data lines\<close>

lemma field_by_number_field_of:
  "i < 35 \<Longrightarrow> field_by_number (type_table w) (int i) = Inr (field_of w i)"
proof -
  assume "i < 35"
  then have "map_of (FIELDS (type_table w)) (int i) \<noteq> None"
    by (simp add: FIELDS_undefined_iff)
  then show ?thesis
    by (auto simp: field_of_def field_by_number_def)
qed

lemma make_headers_ok:
  "list_all (\<lambda>i. i < 35) fnums \<Longrightarrow> make_headers w fnums = Inr (map (header_of w) fnums)"
  by (induction fnums) (simp_all add: field_by_number_field_of header_of_def)

lemma collect_row_ok:
  "distinct fnums \<Longrightarrow> list_all (\<lambda>i. i < 35 \<and> i < length d) fnums \<Longrightarrow> row_ok w fnums row \<Longrightarrow>
     collect_row w row fnums d =
       (None, map (\<lambda>i. if i \<in> set fnums
                        then (d ! i)\<lparr>c_values := c_values (d ! i) @ [decoded_cell w i row]\<rparr>
                        else d ! i) [0..<length d])"
proof (induction fnums arbitrary: d)
  case Nil
  show ?case by (simp add: map_nth)
next
  case (Cons i fnums)
  let ?c = "(d ! i)\<lparr>c_values := c_values (d ! i) @ [decoded_cell w i row]\<rparr>"
  from Cons.prems have i: "i \<notin> set fnums" "i < 35" "i < length d" "i < length row"
    and dec: "decode_value w (f_value_type (field_of w i)) (row ! i) = Inr (decoded_cell w i row)"
    and dist: "distinct fnums" and ok: "row_ok w fnums row"
    and lens: "list_all (\<lambda>k. k < 35 \<and> k < length (d[i := ?c])) fnums"
    by (auto simp: row_ok_def)
  have "collect_row w row (i # fnums) d = collect_row w row fnums (d[i := ?c])"
    using i dec by (simp add: field_by_number_field_of)
  also have "\<dots> = (None, map (\<lambda>k. if k \<in> set fnums
                        then (d[i := ?c] ! k)\<lparr>c_values := c_values (d[i := ?c] ! k) @ [decoded_cell w k row]\<rparr>
                        else d[i := ?c] ! k) [0..<length (d[i := ?c])])"
    by (rule Cons.IH [OF dist lens ok])
  also have "map (\<lambda>k. if k \<in> set fnums
                        then (d[i := ?c] ! k)\<lparr>c_values := c_values (d[i := ?c] ! k) @ [decoded_cell w k row]\<rparr>
                        else d[i := ?c] ! k) [0..<length (d[i := ?c])]
           = map (\<lambda>k. if k \<in> set (i # fnums)
                        then (d ! k)\<lparr>c_values := c_values (d ! k) @ [decoded_cell w k row]\<rparr>
                        else d ! k) [0..<length d]"
    using i by (auto simp: nth_list_update)
  finally show ?case .
qed

lemma collect_row_success:
  "collect_row w row fnums d = (None, d') \<Longrightarrow> list_all (\<lambda>i. i < 35) fnums \<Longrightarrow>
     row_ok w fnums row \<and> list_all (\<lambda>i. i < length d) fnums"
proof (induction fnums arbitrary: d)
  case Nil
  show ?case by (simp add: row_ok_def)
next
  case (Cons i fnums)
  from Cons.prems(2) have i35: "i < 35" and rest35: "list_all (\<lambda>i. i < 35) fnums" by auto
  have fbn: "field_by_number (type_table w) (int i) = Inr (field_of w i)"
    by (rule field_by_number_field_of [OF i35])
  from Cons.prems(1) fbn have irow: "i < length row"
    by (auto split: if_splits)
  from Cons.prems(1) fbn irow obtain v where
    dec: "decode_value w (f_value_type (field_of w i)) (row ! i) = Inr v"
    by (cases "decode_value w (f_value_type (field_of w i)) (row ! i)") auto
  then have v: "decoded_cell w i row = v" by (simp add: decoded_cell_def)
  from Cons.prems(1) fbn irow dec have id: "i < length d"
    by (auto split: if_splits)
  let ?c = "(d ! i)\<lparr>c_values := c_values (d ! i) @ [v]\<rparr>"
  from Cons.prems(1) fbn irow dec id
  have "collect_row w row fnums (d[i := ?c]) = (None, d')" by simp
  from Cons.IH [OF this rest35]
  have "row_ok w fnums row" "list_all (\<lambda>i. i < length d) fnums" by simp_all
  with irow dec v id show ?case by (simp add: row_ok_def)
qed

lemma collect_rows_ok:
  "distinct fnums \<Longrightarrow> list_all (\<lambda>i. i < 35 \<and> i < length d) fnums \<Longrightarrow>
   list_all (row_ok w fnums) rws \<Longrightarrow>
     collect_rows w fnums rws d =
       (None, map (\<lambda>i. if i \<in> set fnums
                        then (d ! i)\<lparr>c_values := c_values (d ! i) @ map (decoded_cell w i) rws\<rparr>
                        else d ! i) [0..<length d])"
proof (induction rws arbitrary: d)
  case Nil
  have "map (\<lambda>i. if i \<in> set fnums
                        then (d ! i)\<lparr>c_values := c_values (d ! i) @ map (decoded_cell w i) []\<rparr>
                        else d ! i) [0..<length d] = d"
    by (rule nth_equalityI) simp_all
  then show ?case by simp
next
  case (Cons row rws)
  let ?d1 = "map (\<lambda>i. if i \<in> set fnums
                        then (d ! i)\<lparr>c_values := c_values (d ! i) @ [decoded_cell w i row]\<rparr>
                        else d ! i) [0..<length d]"
  from Cons.prems have row: "row_ok w fnums row" and rest: "list_all (row_ok w fnums) rws"
    by auto
  have one: "collect_row w row fnums d = (None, ?d1)"
    by (rule collect_row_ok [OF Cons.prems(1) Cons.prems(2) row])
  have lens: "list_all (\<lambda>i. i < 35 \<and> i < length ?d1) fnums"
    using Cons.prems(2) by simp
  have "collect_rows w fnums (row # rws) d = collect_rows w fnums rws ?d1"
    using one by simp
  also have "\<dots> = (None, map (\<lambda>i. if i \<in> set fnums
                        then (?d1 ! i)\<lparr>c_values := c_values (?d1 ! i) @ map (decoded_cell w i) rws\<rparr>
                        else ?d1 ! i) [0..<length ?d1])"
    by (rule Cons.IH [OF Cons.prems(1) lens rest])
  also have "map (\<lambda>i. if i \<in> set fnums
                        then (?d1 ! i)\<lparr>c_values := c_values (?d1 ! i) @ map (decoded_cell w i) rws\<rparr>
                        else ?d1 ! i) [0..<length ?d1]
           = map (\<lambda>i. if i \<in> set fnums
                        then (d ! i)\<lparr>c_values := c_values (d ! i) @ map (decoded_cell w i) (row # rws)\<rparr>
                        else d ! i) [0..<length d]"
    by auto
  finally show ?case .
qed

lemma collect_rows_success:
  "collect_rows w fnums rws d = (None, d') \<Longrightarrow> list_all (\<lambda>i. i < 35) fnums \<Longrightarrow>
     list_all (row_ok w fnums) rws"
proof (induction rws arbitrary: d)
  case Nil
  show ?case by simp
next
  case (Cons row rws)
  from Cons.prems(1) obtain d1 where one: "collect_row w row fnums d = (None, d1)"
    and rest: "collect_rows w fnums rws d1 = (None, d')"
    by (auto split: prod.splits option.splits)
  from collect_row_success [OF one Cons.prems(2)] have "row_ok w fnums row" by simp
  with Cons.IH [OF rest Cons.prems(2)] show ?case by simp
qed

lemma import_shift_ok:
  "distinct fnums \<Longrightarrow>
   list_all (\<lambda>i. i < length hs \<and> i < length d
                \<and> (point_in_time (h_data_type (hs ! i)) \<longrightarrow> c_values (d ! i) \<noteq> [])) fnums \<Longrightarrow>
     import_shift hs fnums d =
       (None, map (\<lambda>i. if i \<in> set fnums \<and> point_in_time (h_data_type (hs ! i))
                        then (d ! i)\<lparr>c_values := move_last (c_values (d ! i))\<rparr>
                        else d ! i) [0..<length d])"
proof (induction fnums arbitrary: d)
  case Nil
  show ?case by (simp add: map_nth)
next
  case (Cons i fnums)
  from Cons.prems have i: "i \<notin> set fnums" "i < length hs" "i < length d"
    and dist: "distinct fnums" by auto
  show ?case
  proof (cases "point_in_time (h_data_type (hs ! i))")
    case False
    from Cons.prems have lens: "list_all (\<lambda>i. i < length hs \<and> i < length d
                \<and> (point_in_time (h_data_type (hs ! i)) \<longrightarrow> c_values (d ! i) \<noteq> [])) fnums"
      by simp
    have "import_shift hs (i # fnums) d = import_shift hs fnums d"
      using i False by simp
    also note Cons.IH [OF dist lens]
    also have "map (\<lambda>k. if k \<in> set fnums \<and> point_in_time (h_data_type (hs ! k))
                        then (d ! k)\<lparr>c_values := move_last (c_values (d ! k))\<rparr>
                        else d ! k) [0..<length d]
             = map (\<lambda>k. if k \<in> set (i # fnums) \<and> point_in_time (h_data_type (hs ! k))
                        then (d ! k)\<lparr>c_values := move_last (c_values (d ! k))\<rparr>
                        else d ! k) [0..<length d]"
      using False by auto
    finally show ?thesis .
  next
    case True
    with Cons.prems have ne: "c_values (d ! i) \<noteq> []" by simp
    let ?c = "(d ! i)\<lparr>c_values := move_last (c_values (d ! i))\<rparr>"
    have lens: "list_all (\<lambda>k. k < length hs \<and> k < length (d[i := ?c])
                \<and> (point_in_time (h_data_type (hs ! k)) \<longrightarrow> c_values (d[i := ?c] ! k) \<noteq> [])) fnums"
      using Cons.prems i by (auto simp: list_all_iff nth_list_update)
    have "import_shift hs (i # fnums) d = import_shift hs fnums (d[i := ?c])"
      using i True ne by (simp add: last_to_front_def move_last_def)
    also note Cons.IH [OF dist lens]
    also have "map (\<lambda>k. if k \<in> set fnums \<and> point_in_time (h_data_type (hs ! k))
                        then (d[i := ?c] ! k)\<lparr>c_values := move_last (c_values (d[i := ?c] ! k))\<rparr>
                        else d[i := ?c] ! k) [0..<length (d[i := ?c])]
             = map (\<lambda>k. if k \<in> set (i # fnums) \<and> point_in_time (h_data_type (hs ! k))
                        then (d ! k)\<lparr>c_values := move_last (c_values (d ! k))\<rparr>
                        else d ! k) [0..<length d]"
      using i True by (auto simp: nth_list_update)
    finally show ?thesis .
  qed
qed

lemma import_shift_success:
  "import_shift hs fnums d = (None, d') \<Longrightarrow> distinct fnums \<Longrightarrow>
     list_all (\<lambda>i. point_in_time (h_data_type (hs ! i)) \<longrightarrow> c_values (d ! i) \<noteq> []) fnums"
proof (induction fnums arbitrary: d)
  case Nil
  show ?case by simp
next
  case (Cons i fnums)
  from Cons.prems(2) have i: "i \<notin> set fnums" and dist: "distinct fnums" by auto
  from Cons.prems(1) have ihs: "i < length hs" by (auto split: if_splits)
  show ?case
  proof (cases "point_in_time (h_data_type (hs ! i))")
    case False
    with Cons.prems(1) ihs have "import_shift hs fnums d = (None, d')" by simp
    from Cons.IH [OF this dist] False show ?thesis by simp
  next
    case True
    with Cons.prems(1) ihs have id: "i < length d" by (auto split: if_splits)
    from Cons.prems(1) ihs True id have ne: "c_values (d ! i) \<noteq> []"
      by (auto simp: last_to_front_def split: if_splits)
    let ?c = "(d ! i)\<lparr>c_values := last (c_values (d ! i)) # butlast (c_values (d ! i))\<rparr>"
    from Cons.prems(1) ihs True id ne
    have "import_shift hs fnums (d[i := ?c]) = (None, d')"
      by (simp add: last_to_front_def)
    from Cons.IH [OF this dist]
    have "list_all (\<lambda>k. point_in_time (h_data_type (hs ! k)) \<longrightarrow> c_values (d[i := ?c] ! k) \<noteq> []) fnums" .
    moreover have "\<And>k. k \<in> set fnums \<Longrightarrow> d[i := ?c] ! k = d ! k"
      using i by (metis nth_list_update_neq)
    ultimately have "list_all (\<lambda>k. point_in_time (h_data_type (hs ! k)) \<longrightarrow> c_values (d ! k) \<noteq> []) fnums"
      by (simp add: list_all_iff)
    with ne show ?thesis by simp
  qed
qed

lemma wrap_collections_ok:
  "list_all (\<lambda>i. i < length hs \<and> i < length d) fnums \<Longrightarrow>
     wrap_collections hs fnums d =
       (None, map (\<lambda>i. if i \<in> set fnums then (d ! i)\<lparr>c_header := Some (hs ! i)\<rparr> else d ! i)
                [0..<length d])"
proof (induction fnums arbitrary: d)
  case Nil
  show ?case by (simp add: map_nth)
next
  case (Cons i fnums)
  let ?c = "(d ! i)\<lparr>c_header := Some (hs ! i)\<rparr>"
  from Cons.prems have i: "i < length hs" "i < length d"
    and lens: "list_all (\<lambda>k. k < length hs \<and> k < length (d[i := ?c])) fnums" by auto
  have "wrap_collections hs (i # fnums) d = wrap_collections hs fnums (d[i := ?c])"
    using i by simp
  also note Cons.IH [OF lens]
  also have "map (\<lambda>k. if k \<in> set fnums then (d[i := ?c] ! k)\<lparr>c_header := Some (hs ! k)\<rparr>
                       else d[i := ?c] ! k) [0..<length (d[i := ?c])]
           = map (\<lambda>k. if k \<in> set (i # fnums) then (d ! k)\<lparr>c_header := Some (hs ! k)\<rparr> else d ! k)
                [0..<length d]"
    using i by (auto simp: nth_list_update)
  finally show ?case .
qed

lemma field_count_le: "field_count f \<le> 35"
  by (simp add: field_count_def)

lemma headers_fresh:
  "make_headers w [0..<field_count f] = Inr (map (header_of w) [0..<field_count f])"
proof -
  have "list_all (\<lambda>i. i < 35) [0..<field_count f]"
    using field_count_le [of f] by (auto simp: list_all_iff)
  then show ?thesis by (rule make_headers_ok)
qed

lemma collected_fresh:
  assumes "list_all (row_ok w [0..<field_count f]) (rows f)"
  shows "collect_rows w [0..<field_count f] (rows f)
           (replicate (field_count f) \<lparr>c_header = None, c_values = []\<rparr>)
         = (None, map (\<lambda>i. \<lparr>c_header = None, c_values = column w f i\<rparr>) [0..<field_count f])"
proof -
  let ?n = "field_count f"
  let ?d0 = "replicate ?n \<lparr>c_header = None, c_values = []\<rparr>"
  have lens: "list_all (\<lambda>i. i < 35 \<and> i < length ?d0) [0..<?n]"
    using field_count_le [of f] by (auto simp: list_all_iff)
  have "collect_rows w [0..<?n] (rows f) ?d0 =
       (None, map (\<lambda>i. if i \<in> set [0..<?n]
                        then (?d0 ! i)\<lparr>c_values := c_values (?d0 ! i) @ map (decoded_cell w i) (rows f)\<rparr>
                        else ?d0 ! i) [0..<length ?d0])"
    by (rule collect_rows_ok [OF distinct_upt lens assms])
  also have "map (\<lambda>i. if i \<in> set [0..<?n]
                        then (?d0 ! i)\<lparr>c_values := c_values (?d0 ! i) @ map (decoded_cell w i) (rows f)\<rparr>
                        else ?d0 ! i) [0..<length ?d0]
           = map (\<lambda>i. \<lparr>c_header = None, c_values = column w f i\<rparr>) [0..<?n]"
    by (auto simp: column_def)
  finally show ?thesis .
qed

lemma shifted_fresh:
  assumes "list_all (\<lambda>i. pit_field w i \<longrightarrow> column w f i \<noteq> []) [0..<field_count f]"
  shows "import_shift (map (header_of w) [0..<field_count f]) [0..<field_count f]
           (map (\<lambda>i. \<lparr>c_header = None, c_values = column w f i\<rparr>) [0..<field_count f])
         = (None, map (\<lambda>i. \<lparr>c_header = None,
                              c_values = (if pit_field w i then move_last (column w f i)
                                          else column w f i)\<rparr>) [0..<field_count f])"
proof -
  let ?n = "field_count f"
  let ?hs = "map (header_of w) [0..<?n]"
  let ?d1 = "map (\<lambda>i. \<lparr>c_header = None, c_values = column w f i\<rparr>) [0..<?n]"
  have lens: "list_all (\<lambda>i. i < length ?hs \<and> i < length ?d1
                \<and> (point_in_time (h_data_type (?hs ! i)) \<longrightarrow> c_values (?d1 ! i) \<noteq> [])) [0..<?n]"
    using assms by (auto simp: list_all_iff pit_field_def header_of_def)
  have "import_shift ?hs [0..<?n] ?d1 =
       (None, map (\<lambda>i. if i \<in> set [0..<?n] \<and> point_in_time (h_data_type (?hs ! i))
                        then (?d1 ! i)\<lparr>c_values := move_last (c_values (?d1 ! i))\<rparr>
                        else ?d1 ! i) [0..<length ?d1])"
    by (rule import_shift_ok [OF distinct_upt lens])
  also have "map (\<lambda>i. if i \<in> set [0..<?n] \<and> point_in_time (h_data_type (?hs ! i))
                        then (?d1 ! i)\<lparr>c_values := move_last (c_values (?d1 ! i))\<rparr>
                        else ?d1 ! i) [0..<length ?d1]
           = map (\<lambda>i. \<lparr>c_header = None,
                              c_values = (if pit_field w i then move_last (column w f i)
                                          else column w f i)\<rparr>) [0..<?n]"
    by (auto simp: pit_field_def header_of_def)
  finally show ?thesis .
qed

lemma wrapped_fresh:
  "wrap_collections (map (header_of w) [0..<field_count f]) [0..<field_count f]
     (map (\<lambda>i. \<lparr>c_header = None,
                  c_values = (if pit_field w i then move_last (column w f i)
                              else column w f i)\<rparr>) [0..<field_count f])
   = (None, data (imported w f))"
proof -
  let ?n = "field_count f"
  let ?hs = "map (header_of w) [0..<?n]"
  let ?d2 = "map (\<lambda>i. \<lparr>c_header = None,
                  c_values = (if pit_field w i then move_last (column w f i)
                              else column w f i)\<rparr>) [0..<?n]"
  have lens: "list_all (\<lambda>i. i < length ?hs \<and> i < length ?d2) [0..<?n]"
    by (auto simp: list_all_iff)
  have "wrap_collections ?hs [0..<?n] ?d2 =
       (None, map (\<lambda>i. if i \<in> set [0..<?n] then (?d2 ! i)\<lparr>c_header := Some (?hs ! i)\<rparr> else ?d2 ! i)
                [0..<length ?d2])"
    by (rule wrap_collections_ok [OF lens])
  also have "map (\<lambda>i. if i \<in> set [0..<?n] then (?d2 ! i)\<lparr>c_header := Some (?hs ! i)\<rparr> else ?d2 ! i)
                [0..<length ?d2] = data (imported w f)"
    by (auto simp: imported_def)
  finally show ?thesis .
qed

lemma pit_condition:
  "list_all (\<lambda>i. pit_field w i \<longrightarrow> column w f i \<noteq> []) [0..<field_count f]
     \<longleftrightarrow> (rows f = [] \<longrightarrow> list_all (\<lambda>i. \<not> pit_field w i) [0..<field_count f])"
  by (auto simp: list_all_iff column_def)

text \<open>
  The import into a fresh object succeeds exactly when the file is well formed, and
  then leaves the object \<open>imported\<close>.
\<close>

lemma import_data_fresh_ok:
  assumes "import_ok w f"
  shows "import_data w (EPW_init (File f)) = (None, imported w f)"
proof -
  from assms have he: "header_error f = None"
    and rws: "list_all (row_ok w [0..<field_count f]) (rows f)"
    and pit: "list_all (\<lambda>i. pit_field w i \<longrightarrow> column w f i \<noteq> []) [0..<field_count f]"
    by (simp_all add: import_ok_def pit_condition)
  show ?thesis
    using he headers_fresh [of w f] collected_fresh [OF rws] shifted_fresh [OF pit]
      wrapped_fresh [of w f]
    by (simp add: import_data_def EPW_init_def Let_def field_count_def [symmetric] imported_def)
qed

lemma import_data_fresh_success:
  assumes "import_data w (EPW_init (File f)) = (None, e)"
  shows "import_ok w f"
proof -
  let ?n = "field_count f"
  let ?d0 = "replicate ?n \<lparr>c_header = None, c_values = []\<rparr>"
  let ?hs = "map (header_of w) [0..<?n]"
  from assms have he: "header_error f = None"
    by (auto simp: import_data_def EPW_init_def Let_def split: option.splits)
  from assms he headers_fresh [of w f]
  obtain d1 where c: "collect_rows w [0..<?n] (rows f) ?d0 = (None, d1)"
    by (auto simp: import_data_def EPW_init_def Let_def field_count_def [symmetric]
        split: option.splits prod.splits)
  have "list_all (\<lambda>i. i < 35) [0..<?n]"
    using field_count_le [of f] by (auto simp: list_all_iff)
  from collect_rows_success [OF c this]
  have rws: "list_all (row_ok w [0..<?n]) (rows f)" .
  from c collected_fresh [OF rws]
  have d1: "d1 = map (\<lambda>i. \<lparr>c_header = None, c_values = column w f i\<rparr>) [0..<?n]" by simp
  from assms he headers_fresh [of w f] c
  obtain d2 where s: "import_shift ?hs [0..<?n] d1 = (None, d2)"
    by (auto simp: import_data_def EPW_init_def Let_def field_count_def [symmetric]
        split: option.splits prod.splits)
  from import_shift_success [OF s distinct_upt]
  have "list_all (\<lambda>i. pit_field w i \<longrightarrow> column w f i \<noteq> []) [0..<?n]"
    by (auto simp: d1 list_all_iff pit_field_def header_of_def)
  with he rws show ?thesis
    by (simp add: import_ok_def pit_condition)
qed

lemma import_data_fresh_iff:
  "import_data w (EPW_init (File f)) = (None, e) \<longleftrightarrow> import_ok w f \<and> e = imported w f"
  using import_data_fresh_ok [of w f] import_data_fresh_success [of w f e] by auto

lemma imported_nth:
  "i < field_count f \<Longrightarrow>
     data (imported w f) ! i =
       \<lparr>c_header = Some (header_of w i),
        c_values = (if pit_field w i then move_last (column w f i) else column w f i)\<rparr>"
  by (simp add: imported_def)

lemma imported_ready:
  "ready [0..<num_of_fields (imported w f)] (data (imported w f))"
  by (simp add: ready_def list_all_iff imported_def move_last_def is_point_in_time_def
      header_of_def pit_field_def)

lemma rotated_imported:
  assumes ok: "import_ok w f" and i: "i < field_count f"
  shows "c_values (rotated [0..<field_count f] (data (imported w f)) ! i) = column w f i"
proof (cases "pit_field w i")
  case False
  then show ?thesis
    using i by (simp add: rotated_nth imported_def is_point_in_time_def header_of_def
        pit_field_def)
next
  case True
  with ok i have "rows f \<noteq> []"
    by (auto simp: import_ok_def list_all_iff)
  then have ne: "column w f i \<noteq> []" by (simp add: column_def)
  have "is_point_in_time (data (imported w f) ! i)"
    using True i by (simp add: imported_def is_point_in_time_def header_of_def pit_field_def)
  then show ?thesis
    using i True ne by (simp add: rotated_nth imported_def move_last_def)
qed

lemma file_text_imported:
  assumes ok: "import_ok w f"
    and long: "annual_hours w (imported w f) \<le> length (rows f)"
  shows "file_text w lines (imported w f) =
           concat (lines @
             map (\<lambda>row. text_line (map (\<lambda>i. str_of w (decoded_cell w i row))
                                      [0..<field_count f]))
               (take (annual_hours w (imported w f)) (rows f)))"
proof -
  let ?n = "annual_hours w (imported w f)"
  let ?g = "\<lambda>row. text_line (map (\<lambda>i. str_of w (decoded_cell w i row)) [0..<field_count f])"
  have nf: "num_of_fields (imported w f) = field_count f" by (simp add: imported_def)
  have "map (\<lambda>hour. text_line
              (map (\<lambda>i. str_of w (c_values (rotated [0..<field_count f] (data (imported w f)) ! i) ! hour))
                 [0..<field_count f])) [0..<?n]
        = map ?g (take ?n (rows f))"
  proof (rule nth_equalityI)
    show "length (map (\<lambda>hour. text_line
              (map (\<lambda>i. str_of w (c_values (rotated [0..<field_count f] (data (imported w f)) ! i) ! hour))
                 [0..<field_count f])) [0..<?n]) = length (map ?g (take ?n (rows f)))"
      using long by simp
  next
    fix h
    assume "h < length (map (\<lambda>hour. text_line
              (map (\<lambda>i. str_of w (c_values (rotated [0..<field_count f] (data (imported w f)) ! i) ! hour))
                 [0..<field_count f])) [0..<?n])"
    then have h: "h < ?n" by simp
    with long have hr: "h < length (rows f)" by simp
    have "\<And>i. i \<in> set [0..<field_count f] \<Longrightarrow>
            str_of w (c_values (rotated [0..<field_count f] (data (imported w f)) ! i) ! h)
              = str_of w (decoded_cell w i (rows f ! h))"
      using rotated_imported [OF ok] hr by (simp add: column_def)
    then have "map (\<lambda>i. str_of w (c_values (rotated [0..<field_count f] (data (imported w f)) ! i) ! h))
                 [0..<field_count f]
             = map (\<lambda>i. str_of w (decoded_cell w i (rows f ! h))) [0..<field_count f]"
      by (rule map_cong [OF refl])
    note eq = this
    show "map (\<lambda>hour. text_line
              (map (\<lambda>i. str_of w (c_values (rotated [0..<field_count f] (data (imported w f)) ! i) ! hour))
                 [0..<field_count f])) [0..<?n] ! h = map ?g (take ?n (rows f)) ! h"
      using h hr by (simp add: eq)
  qed
  then show ?thesis by (simp add: file_text_def nf)
qed

lemma save_imported:
  assumes ok: "import_ok w f"
    and long: "annual_hours w (imported w f) \<le> length (rows f)"
  shows "save w (Inr lines) (imported w f) file_path =
           ((case write_to_file w file_path (file_text w lines (imported w f)) of
               Some err \<Rightarrow> Inl err | None \<Rightarrow> Inr file_path),
            imported w f, Some (file_path, file_text w lines (imported w f)))"
proof -
  let ?e = "imported w f"
  have ld: "is_data_loaded ?e" and si: "in_si w ?e = ?e" and nip: "\<not> is_ip ?e"
    by (simp_all add: imported_def in_si_def)
  have pos: "0 < annual_hours w ?e" by (rule annual_hours_pos)
  with long have ne: "rows f \<noteq> []" by auto
  have "list_all (\<lambda>i. annual_hours w ?e \<le> length (c_values (data ?e ! i)))
          [0..<num_of_fields ?e]"
    using long ne by (simp add: list_all_iff imported_def move_last_def column_def)
  from try_statement_ok [OF imported_ready this]
  have "save_try_statement w lines ?e file_path =
          (write_to_file w file_path (file_text w lines ?e), ?e,
           Some (file_path, file_text w lines ?e))" .
  then show ?thesis
    using save_loaded [OF ld, of w lines file_path] si nip
    by (cases "write_to_file w file_path (file_text w lines ?e)") simp_all
qed

lemma sample_field_0:
  "field_by_number (type_table sample_world) 0 =
     Inr \<lparr>f_name = GenericType ''Year'' ''yr'', f_value_type = TInt, f_unit = Some ''yr'',
          f_missing = None\<rparr>"
  by (simp add: field_by_number_def FIELDS_def mk_field_def EPWField_def)

lemma sample_field_of_0:
  "field_of sample_world 0 =
     \<lparr>f_name = GenericType ''Year'' ''yr'', f_value_type = TInt, f_unit = Some ''yr'',
      f_missing = None\<rparr>"
  using sample_field_0 by (simp add: field_of_def)

lemma sample_decoded:
  "decode_value sample_world TInt ''1'' = Inr (IntV 1)"
  "decode_value sample_world TInt ''2017'' = Inr (IntV 2017)"
  "decode_value sample_world TInt ''24'' = Inr (IntV 24)"
  by (simp_all add: decode_value_def sample_world_def)

lemma sample_field_count: "field_count sample_file = 1"
  by (simp add: field_count_def sample_file_def)

lemma sample_import_ok: "import_ok sample_world sample_file"
proof -
  have r: "list_all (row_ok sample_world [0]) (rows sample_file)"
    by (simp add: row_ok_def sample_field_of_0 sample_decoded decoded_cell_def sample_file_def
        list_all_iff)
  have h: "header_error sample_file = None" "rows sample_file \<noteq> []"
    by (simp_all add: sample_file_def)
  from r h show ?thesis
    by (simp add: import_ok_def sample_field_count)
qed

text \<open>
  C1: after an import, the series of every field is the decoded column of the file,
  with the value of the last data row moved to the front (index 0) when the data type
  of the field is point-in-time and in the order of the file otherwise. A following
  \<^verbatim>\<open>save\<close> moves the values back before it emits the lines: the text it hands to
  the writer is the header and, row by row in the order of the file, the values of the
  rows of the annual period; the object is left as the import left it.
\<close>

theorem import_moves_last_row_and_save_inverts:
  assumes imp: "import_data w (EPW_init (File f)) = (None, e)"
  shows "num_of_fields e = field_count f \<and> length (data e) = field_count f
       \<and> is_data_loaded e \<and> is_leap_year e = leap_flag f
       \<and> (\<forall>i<field_count f. \<exists>field.
             field_by_number (type_table w) (int i) = Inr field
             \<and> (\<forall>row\<in>set (rows f). i < length row
                   \<and> decode_value w (f_value_type field) (row ! i) = Inr (decoded_cell w i row))
             \<and> c_values (data e ! i) =
                 (if point_in_time (f_name field)
                  then last (column w f i) # butlast (column w f i)
                  else column w f i)
             \<and> (point_in_time (f_name field) \<longrightarrow>
                   rows f \<noteq> [] \<and> c_values (data e ! i) ! 0 = decoded_cell w i (last (rows f))))
       \<and> (annual_hours w e \<le> length (rows f) \<longrightarrow>
            (\<exists>txt. txt = concat (lines @
                       map (\<lambda>row. text_line (map (\<lambda>i. str_of w (decoded_cell w i row))
                                                [0..<field_count f]))
                         (take (annual_hours w e) (rows f)))
               \<and> save w (Inr lines) e file_path =
                   ((case write_to_file w file_path txt of
                       Some err \<Rightarrow> Inl err | None \<Rightarrow> Inr file_path),
                    e, Some (file_path, txt))))"
proof -
  from imp have ok: "import_ok w f" and e: "e = imported w f"
    by (simp_all add: import_data_fresh_iff)
  have basics: "num_of_fields e = field_count f \<and> length (data e) = field_count f
       \<and> is_data_loaded e \<and> is_leap_year e = leap_flag f"
    by (simp add: e imported_def)
  have cols: "\<forall>i<field_count f. \<exists>field.
             field_by_number (type_table w) (int i) = Inr field
             \<and> (\<forall>row\<in>set (rows f). i < length row
                   \<and> decode_value w (f_value_type field) (row ! i) = Inr (decoded_cell w i row))
             \<and> c_values (data e ! i) =
                 (if point_in_time (f_name field)
                  then last (column w f i) # butlast (column w f i)
                  else column w f i)
             \<and> (point_in_time (f_name field) \<longrightarrow>
                   rows f \<noteq> [] \<and> c_values (data e ! i) ! 0 = decoded_cell w i (last (rows f)))"
  proof (intro allI impI)
    fix i
    assume i: "i < field_count f"
    with field_count_le [of f] have "i < 35" by simp
    then have fbn: "field_by_number (type_table w) (int i) = Inr (field_of w i)"
      by (rule field_by_number_field_of)
    from ok i have dec: "\<forall>row\<in>set (rows f). i < length row
        \<and> decode_value w (f_value_type (field_of w i)) (row ! i) = Inr (decoded_cell w i row)"
      by (auto simp: import_ok_def row_ok_def list_all_iff)
    have vals: "c_values (data e ! i) =
                 (if point_in_time (f_name (field_of w i))
                  then last (column w f i) # butlast (column w f i)
                  else column w f i)"
      using i by (simp add: e imported_nth pit_field_def move_last_def)
    have first: "point_in_time (f_name (field_of w i)) \<longrightarrow>
                   rows f \<noteq> [] \<and> c_values (data e ! i) ! 0 = decoded_cell w i (last (rows f))"
    proof
      assume p: "point_in_time (f_name (field_of w i))"
      with ok i have ne: "rows f \<noteq> []"
        by (auto simp: import_ok_def list_all_iff pit_field_def)
      with p vals show "rows f \<noteq> [] \<and> c_values (data e ! i) ! 0 = decoded_cell w i (last (rows f))"
        by (simp add: column_def last_map)
    qed
    from fbn dec vals first
    show "\<exists>field.
             field_by_number (type_table w) (int i) = Inr field
             \<and> (\<forall>row\<in>set (rows f). i < length row
                   \<and> decode_value w (f_value_type field) (row ! i) = Inr (decoded_cell w i row))
             \<and> c_values (data e ! i) =
                 (if point_in_time (f_name field)
                  then last (column w f i) # butlast (column w f i)
                  else column w f i)
             \<and> (point_in_time (f_name field) \<longrightarrow>
                   rows f \<noteq> [] \<and> c_values (data e ! i) ! 0 = decoded_cell w i (last (rows f)))"
      by blast
  qed
  have sv: "annual_hours w e \<le> length (rows f) \<longrightarrow>
            (\<exists>txt. txt = concat (lines @
                       map (\<lambda>row. text_line (map (\<lambda>i. str_of w (decoded_cell w i row))
                                                [0..<field_count f]))
                         (take (annual_hours w e) (rows f)))
               \<and> save w (Inr lines) e file_path =
                   ((case write_to_file w file_path txt of
                       Some err \<Rightarrow> Inl err | None \<Rightarrow> Inr file_path),
                    e, Some (file_path, txt)))"
  proof
    assume long: "annual_hours w e \<le> length (rows f)"
    then have long': "annual_hours w (imported w f) \<le> length (rows f)" by (simp add: e)
    show "\<exists>txt. txt = concat (lines @
                       map (\<lambda>row. text_line (map (\<lambda>i. str_of w (decoded_cell w i row))
                                                [0..<field_count f]))
                         (take (annual_hours w e) (rows f)))
               \<and> save w (Inr lines) e file_path =
                   ((case write_to_file w file_path txt of
                       Some err \<Rightarrow> Inl err | None \<Rightarrow> Inr file_path),
                    e, Some (file_path, txt))"
      using save_imported [OF ok long', of lines file_path] file_text_imported [OF ok long', of lines]
      by (simp add: e)
  qed
  from basics cols sv show ?thesis by blast
qed

theorem import_moves_last_row_and_save_inverts_witness:
  "import_data sample_world (EPW_init (File sample_file))
     = (None, imported sample_world sample_file)
   \<and> num_of_fields (imported sample_world sample_file) = 1
   \<and> point_in_time (GenericType ''Year'' ''yr'')
   \<and> c_values (data (imported sample_world sample_file) ! 0) ! 0 = IntV 24
   \<and> annual_hours sample_world (imported sample_world sample_file)
        \<le> length (rows sample_file)
   \<and> save sample_world (Inr [''DATA PERIODS'']) (imported sample_world sample_file) ''out.epw''
       = (Inr ''out.epw'', imported sample_world sample_file,
          Some (''out.epw'',
                concat ([''DATA PERIODS''] @
                         map (\<lambda>row. text_line (map (\<lambda>i. str_of sample_world
                                                         (decoded_cell sample_world i row)) [0..<1]))
                           (take 8760 (rows sample_file)))))"
proof -
  let ?e = "imported sample_world sample_file"
  have imp: "import_data sample_world (EPW_init (File sample_file)) = (None, ?e)"
    by (rule import_data_fresh_ok [OF sample_import_ok])
  have hrs: "annual_hours sample_world ?e = 8760"
    by (simp add: annual_hours_def length_datetimes imported_def sample_file_def)
  have len: "length (rows sample_file) = 8760" by (simp add: sample_file_def)
  have lst: "decoded_cell sample_world 0 (last (rows sample_file)) = IntV 24"
    by (simp add: sample_file_def decoded_cell_def sample_field_of_0 sample_decoded)
  have wr: "\<And>txt. write_to_file sample_world ''out.epw'' txt = None"
    by (simp add: sample_world_def)
  have pit: "point_in_time (GenericType ''Year'' ''yr'')" by (simp add: GenericType_def)
  from import_moves_last_row_and_save_inverts
    [OF imp, of "[''DATA PERIODS'']" "''out.epw''"]
  show ?thesis
    using imp hrs len lst wr pit sample_field_0 by (auto simp: sample_field_count)
qed

section \<open>Verified properties: legend parameters\<close>

lemmas setter_defs =
  set_min_def set_max_def set_segment_count_def set_colors_def set_title_def
  set_base_plane_def set_continuous_colors_def set_continuous_legend_def
  set_ordinal_dictionary_def set_decimal_count_def set_include_larger_smaller_def
  set_vertical_def set_segment_height_def set_segment_width_def set_text_height_def
  set_font_def


lemma colors_by_rgb_colors: "colors_by_rgb pal (map AColor cs) = Some cs"
  by (induction cs) simp_all

text \<open>
  A duplicate has every attribute of the original; duplicating fails exactly when the
  original does not pass the checks of the constructor.
\<close>

lemma duplicate_valid:
  "valid_parameters p \<Longrightarrow> duplicate pal p = Inr p"
  by (cases "p_min p"; cases "p_max p")
     (simp_all add: duplicate_def LegendParameters_def new_parameters_def setter_defs
        valid_parameters_def colors_by_rgb_colors)

lemma duplicate_invalid:
  "\<not> valid_parameters p \<Longrightarrow> duplicate pal p = Inl AssertionError"
  by (cases "p_min p"; cases "p_max p")
     (auto simp: duplicate_def LegendParameters_def new_parameters_def setter_defs
        valid_parameters_def colors_by_rgb_colors)

lemma duplicate_cases:
  "duplicate pal p = (if valid_parameters p then Inr p else Inl AssertionError)"
  by (simp add: duplicate_valid duplicate_invalid)

text \<open>
  C6: a segment count below 2, a list of fewer than two colours, a segment height,
  segment width or text height that is not positive, a minimum above the current
  maximum (and a maximum below the current minimum) are rejected by the setter with an
  \<open>AssertionError\<close>, and the object is left exactly as it was.
\<close>

theorem malformed_value_rejected_at_assignment:
  "(n < 2 \<longrightarrow> set_segment_count (Some n) p = (Some AssertionError, p))
   \<and> (length cs < 2 \<longrightarrow> set_colors pal (Some cs) p = (Some AssertionError, p))
   \<and> (v \<le> 0 \<longrightarrow>
        set_segment_height (Some v) p = (Some AssertionError, p)
        \<and> set_segment_width (Some v) p = (Some AssertionError, p)
        \<and> set_text_height (Some v) p = (Some AssertionError, p))
   \<and> (p_max p = Some mx \<and> mx < m \<longrightarrow> set_min (Some m) p = (Some AssertionError, p))
   \<and> (p_min p = Some mn \<and> m' < mn \<longrightarrow> set_max (Some m') p = (Some AssertionError, p))"
  by (auto simp: setter_defs)

theorem malformed_value_rejected_at_assignment_witness:
  "(1::int) < 2
   \<and> set_segment_count (Some 1) six_segments = (Some AssertionError, six_segments)
   \<and> length [AColor (Color 0 0 0)] < 2
   \<and> set_colors sample_palette (Some [AColor (Color 0 0 0)]) six_segments
       = (Some AssertionError, six_segments)
   \<and> (0::rat) \<le> 0
   \<and> set_segment_height (Some 0) six_segments = (Some AssertionError, six_segments)
   \<and> set_segment_width (Some 0) six_segments = (Some AssertionError, six_segments)
   \<and> set_text_height (Some 0) six_segments = (Some AssertionError, six_segments)
   \<and> p_max (six_segments\<lparr>p_max := Some 9\<rparr>) = Some 9 \<and> (9::rat) < 10
   \<and> set_min (Some 10) (six_segments\<lparr>p_max := Some 9\<rparr>)
       = (Some AssertionError, six_segments\<lparr>p_max := Some 9\<rparr>)
   \<and> p_min (six_segments\<lparr>p_min := Some 0\<rparr>) = Some 0 \<and> (- 1::rat) < 0
   \<and> set_max (Some (- 1)) (six_segments\<lparr>p_min := Some 0\<rparr>)
       = (Some AssertionError, six_segments\<lparr>p_min := Some 0\<rparr>)"
  using malformed_value_rejected_at_assignment
    [of 1 six_segments "[AColor (Color 0 0 0)]" sample_palette 0]
    malformed_value_rejected_at_assignment
    [of 1 "six_segments\<lparr>p_max := Some 9\<rparr>" "[]" sample_palette 0 9 10]
    malformed_value_rejected_at_assignment
    [of 1 "six_segments\<lparr>p_min := Some 0\<rparr>" "[]" sample_palette 0 _ _ 0 "- 1"]
  by simp

section \<open>Verified properties: the legend\<close>






lemma segment_numbers_formula:
  assumes "p_min (legend_parameters_of h lg) = Some m"
    and "p_max (legend_parameters_of h lg) = Some M"
    and "p_segment_count (legend_parameters_of h lg) = n" and "2 \<le> n"
  shows "segment_numbers h lg =
           Inr (map (\<lambda>i. m + of_nat i * (M - m) / of_int (n - 1)) [0..<nat n])"
  using assms by (simp add: segment_numbers_def Let_def)





section \<open>Verified properties: the graphic container\<close>

lemma run_setters_Cons:
  "run_setters (s # ss) p = (None, p') \<longleftrightarrow>
     (\<exists>q. s p = (None, q) \<and> run_setters ss q = (None, p'))"
  by (cases "s p") (auto split: option.splits)

lemma run_setters_Nil: "run_setters [] p = (None, p') \<longleftrightarrow> p' = p"
  by auto

lemma title_from_data_type_range:
  "title_from_data_type d u p = (r, q) \<Longrightarrow> same_range p q"
  by (auto simp: title_from_data_type_def same_range_def set_title_def
      split: if_splits sum.splits option.splits list.splits)

lemma default_segment_height_range:
  "default_segment_height a b p = (r, q) \<Longrightarrow> same_range p q"
  by (auto simp: default_segment_height_def same_range_def set_segment_height_def
      split: if_splits)

lemma default_base_plane_range:
  "default_base_plane a b p = (r, q) \<Longrightarrow> same_range p q"
  by (auto simp: default_base_plane_def same_range_def set_base_plane_def
      split: if_splits option.splits)

lemma default_width_range:
  "default_width p = (r, q) \<Longrightarrow> same_range p q"
  by (auto simp: default_width_def same_range_def set_segment_width_def
      split: if_splits option.splits)

lemma default_min_range:
  "default_min vals p = (None, q) \<Longrightarrow>
     (p_min p \<noteq> None \<longrightarrow> p_min q = p_min p) \<and> p_min q \<noteq> None \<and> p_max q = p_max p
     \<and> p_segment_count q = p_segment_count p
     \<and> is_segment_count_default q = is_segment_count_default p
     \<and> p_ordinal_dictionary q = p_ordinal_dictionary p"
  by (auto simp: default_min_def set_min_def split: if_splits option.splits sum.splits)

lemma default_max_range:
  "default_max vals p = (None, q) \<Longrightarrow>
     (p_max p \<noteq> None \<longrightarrow> p_max q = p_max p) \<and> p_max q \<noteq> None \<and> p_min q = p_min p
     \<and> p_segment_count q = p_segment_count p
     \<and> is_segment_count_default q = is_segment_count_default p
     \<and> p_ordinal_dictionary q = p_ordinal_dictionary p"
  by (auto simp: default_max_def set_max_def split: if_splits option.splits sum.splits)

lemma Legend_init_parameters:
  assumes "Legend_init pal h vals (Some a) = (Inr lg, h1)"
  shows "\<exists>q. h1 = h @ [q] \<and> l_legend_par lg = length h
           \<and> is_min_default lg = (p_min (h ! a) = None)
           \<and> is_max_default lg = (p_max (h ! a) = None)
           \<and> (p_min (h ! a) \<noteq> None \<longrightarrow> p_min q = p_min (h ! a))
           \<and> (p_max (h ! a) \<noteq> None \<longrightarrow> p_max q = p_max (h ! a))
           \<and> p_min q \<noteq> None \<and> p_max q \<noteq> None
           \<and> p_segment_count q = p_segment_count (h ! a)
           \<and> is_segment_count_default q = is_segment_count_default (h ! a)
           \<and> p_ordinal_dictionary q = p_ordinal_dictionary (h ! a)"
proof -
  let ?p = "h ! a"
  from assms have dup: "duplicate pal ?p = Inr ?p"
    by (auto simp: Legend_init_def duplicate_cases split: if_splits)
  with assms obtain q where
    run: "run_setters [default_min vals, default_max vals, default_width] ?p = (None, q)"
    and h1: "h1 = h @ [q]"
    and lg: "lg = \<lparr>l_values = vals, l_legend_par = length h,
                   is_min_default = (p_min ?p = None), is_max_default = (p_max ?p = None)\<rparr>"
    by (auto simp: Legend_init_def split: prod.splits option.splits)
  from run obtain q1 q2 where s1: "default_min vals ?p = (None, q1)"
    and s2: "default_max vals q1 = (None, q2)" and s3: "default_width q2 = (None, q)"
    by (auto simp: run_setters_Cons run_setters_Nil simp del: run_setters.simps)
  from default_min_range [OF s1] default_max_range [OF s2] default_width_range [OF s3]
  have "(p_min ?p \<noteq> None \<longrightarrow> p_min q = p_min ?p)
           \<and> (p_max ?p \<noteq> None \<longrightarrow> p_max q = p_max ?p)
           \<and> p_min q \<noteq> None \<and> p_max q \<noteq> None
           \<and> p_segment_count q = p_segment_count ?p
           \<and> is_segment_count_default q = is_segment_count_default ?p
           \<and> p_ordinal_dictionary q = p_ordinal_dictionary ?p"
    by (auto simp: same_range_def)
  with h1 lg show ?thesis by simp
qed

lemma index_of_nth:
  "index_of ks v = Some i \<Longrightarrow> i < length ks \<and> of_int (ks ! i) = v"
  by (induction ks arbitrary: i) (auto split: if_splits option.splits)

lemma take_index_filter:
  "sorted_wrt (<) ks \<Longrightarrow> index_of ks mx = Some j \<Longrightarrow>
     take (Suc j) ks = filter (\<lambda>k. of_int k \<le> mx) ks"
proof (induction ks arbitrary: j)
  case Nil
  then show ?case by simp
next
  case (Cons k r)
  from Cons.prems(1) have above: "\<forall>x\<in>set r. k < x" and srt: "sorted_wrt (<) r" by auto
  show ?case
  proof (cases "of_int k = mx")
    case True
    with Cons.prems(2) have "j = 0" by simp
    moreover have "filter (\<lambda>x. of_int x \<le> mx) r = []"
      using above True by (auto simp: filter_empty_conv)
    ultimately show ?thesis using True by simp
  next
    case False
    with Cons.prems(2) obtain j' where j: "j = Suc j'" and ix: "index_of r mx = Some j'"
      by (auto split: option.splits)
    from index_of_nth [OF ix] have "j' < length r" "of_int (r ! j') = mx" by simp_all
    with above have "of_int k \<le> mx" by (metis nth_mem of_int_less_iff less_imp_le)
    with Cons.IH [OF srt ix] j show ?thesis by simp
  qed
qed

lemma slice_filter:
  "sorted_wrt (<) ks \<Longrightarrow> index_of ks mn = Some i \<Longrightarrow> index_of ks mx = Some j \<Longrightarrow>
     drop i (take (Suc j) ks) = filter (\<lambda>k. mn \<le> of_int k \<and> of_int k \<le> mx) ks"
proof (induction ks arbitrary: i j)
  case Nil
  then show ?case by simp
next
  case (Cons k r)
  from Cons.prems(1) have above: "\<forall>x\<in>set r. k < x" and srt: "sorted_wrt (<) r" by auto
  show ?case
  proof (cases "of_int k = mn")
    case True
    with Cons.prems(2) have i: "i = 0" by simp
    have "take (Suc j) (k # r) = filter (\<lambda>x. of_int x \<le> mx) (k # r)"
      by (rule take_index_filter [OF Cons.prems(1) Cons.prems(3)])
    also have "\<dots> = filter (\<lambda>x. mn \<le> of_int x \<and> of_int x \<le> mx) (k # r)"
    proof (rule filter_cong [OF refl])
      fix x
      assume "x \<in> set (k # r)"
      with above have "k \<le> x" by auto
      then have "mn \<le> of_int x" using True by auto
      then show "(of_int x \<le> mx) = (mn \<le> of_int x \<and> of_int x \<le> mx)" by simp
    qed
    finally show ?thesis using i by simp
  next
    case False
    with Cons.prems(2) obtain i' where i: "i = Suc i'" and ixn: "index_of r mn = Some i'"
      by (auto split: option.splits)
    from index_of_nth [OF ixn] have "i' < length r" "of_int (r ! i') = mn" by simp_all
    with above have below: "of_int k < mn" by (metis nth_mem of_int_less_iff)
    show ?thesis
    proof (cases "of_int k = mx")
      case True
      with Cons.prems(3) have j: "j = 0" by simp
      have "filter (\<lambda>x. mn \<le> of_int x \<and> of_int x \<le> mx) (k # r) = []"
        using above True below by (auto simp: filter_empty_conv)
      with i j show ?thesis by simp
    next
      case notmx: False
      with Cons.prems(3) obtain j' where j: "j = Suc j'" and ixx: "index_of r mx = Some j'"
        by (auto split: option.splits)
      from Cons.IH [OF srt ixn ixx] i j below show ?thesis by simp
    qed
  qed
qed

lemma sorted_keys_strict:
  "distinct ks \<Longrightarrow> sorted_wrt (<) (sort ks)"
  by (simp add: strict_sorted_iff)

lemma keys_between:
  assumes "distinct ks" and "index_of (sort ks) mn = Some i" and "index_of (sort ks) mx = Some j"
  shows "length (drop i (take (j + 1) (sort ks)))
           = card {k \<in> set ks. mn \<le> of_int k \<and> of_int k \<le> mx}"
proof -
  have "drop i (take (Suc j) (sort ks))
          = filter (\<lambda>k. mn \<le> of_int k \<and> of_int k \<le> mx) (sort ks)"
    by (rule slice_filter [OF sorted_keys_strict [OF assms(1)] assms(2) assms(3)])
  moreover have "length (filter (\<lambda>k. mn \<le> of_int k \<and> of_int k \<le> mx) (sort ks))
          = card ({k. mn \<le> of_int k \<and> of_int k \<le> mx} \<inter> set (sort ks))"
    using assms(1) by (simp add: distinct_length_filter)
  moreover have "{k. mn \<le> of_int k \<and> of_int k \<le> mx} \<inter> set (sort ks)
          = {k \<in> set ks. mn \<le> of_int k \<and> of_int k \<le> mx}"
    by auto
  ultimately show ?thesis by simp
qed

lemma hd_sort_Min: "ks \<noteq> [] \<Longrightarrow> hd (sort ks) = Min (set ks)"
proof -
  assume ne: "ks \<noteq> []"
  then have "sort ks \<noteq> []" by (metis length_0_conv length_sort)
  then obtain y r where s: "sort ks = y # r" by (cases "sort ks") auto
  have "sorted (y # r)" by (metis s sorted_sort)
  then have "\<forall>x\<in>set r. y \<le> x" by simp
  moreover have "set ks = insert y (set r)" by (metis s set_sort list.simps(15))
  ultimately have "Min (set ks) = y" by (intro Min_eqI) auto
  with s show ?thesis by simp
qed

lemma last_sort_Max: "ks \<noteq> [] \<Longrightarrow> last (sort ks) = Max (set ks)"
proof -
  assume ne: "ks \<noteq> []"
  then have ne': "sort ks \<noteq> []" by (metis length_0_conv length_sort)
  have "\<forall>x\<in>set (sort ks). x \<le> last (sort ks)"
    using sorted_sort [of ks] ne'
    by (metis in_set_conv_nth last_conv_nth sorted_nth_mono Suc_pred' length_greater_0_conv
        less_Suc_eq_le diff_Suc_1 diff_less zero_less_one)
  moreover have "last (sort ks) \<in> set ks" using ne' by (metis last_in_set set_sort)
  ultimately show ?thesis by (intro Max_eqI [symmetric]) auto
qed

lemma set_min_ok: "set_min (Some v) p = (None, q) \<Longrightarrow> q = p\<lparr>p_min := Some v\<rparr>"
  by (auto simp: set_min_def split: option.splits if_splits)

lemma set_max_ok: "set_max (Some v) p = (None, q) \<Longrightarrow> q = p\<lparr>p_max := Some v\<rparr>"
  by (auto simp: set_max_def split: option.splits if_splits)

lemma align_segment_count_ok:
  assumes "align_segment_count ks p = (None, q)"
  shows "p_min q = p_min p \<and> p_max q = p_max p
       \<and> p_ordinal_dictionary q = p_ordinal_dictionary p
       \<and> (if is_segment_count_default p
           then (\<exists>mn mx i j. p_min p = Some mn \<and> p_max p = Some mx
                   \<and> index_of ks mn = Some i \<and> index_of ks mx = Some j
                   \<and> p_segment_count q = int (length (drop i (take (j + 1) ks))))
           else p_segment_count q = p_segment_count p)"
proof (cases "is_segment_count_default p")
  case False
  with assms show ?thesis by (simp add: align_segment_count_def)
next
  case True
  with assms obtain mn where mn: "p_min p = Some mn"
    by (cases "p_min p") (auto simp: align_segment_count_def)
  with True assms obtain i where i: "index_of ks mn = Some i"
    by (cases "index_of ks mn") (auto simp: align_segment_count_def)
  with True assms mn obtain mx where mx: "p_max p = Some mx"
    by (cases "p_max p") (auto simp: align_segment_count_def)
  with True assms mn i obtain j where j: "index_of ks mx = Some j"
    by (cases "index_of ks mx") (auto simp: align_segment_count_def)
  from True assms mn i mx j
  have "set_segment_count (Some (int (length (drop i (take (j + 1) ks))))) p = (None, q)"
    by (simp add: align_segment_count_def)
  then have "q = p\<lparr>p_segment_count := int (length (drop i (take (j + 1) ks))),
                   is_segment_count_default := False\<rparr>"
    by (auto simp: set_segment_count_def split: if_splits)
  with True mn mx i j show ?thesis by simp
qed

lemma ordinal_from_data_type_ok:
  assumes descr: "unit_descr d = Some descr"
    and unset: "p_ordinal_dictionary p = None"
    and step: "ordinal_from_data_type d lg p = (None, q)"
  shows "p_ordinal_dictionary q = Some descr
       \<and> (is_min_default lg \<or> is_max_default lg \<longrightarrow> map fst descr \<noteq> [])
       \<and> p_min q = (if is_min_default lg then Some (of_int (hd (sort (map fst descr))))
                    else p_min p)
       \<and> p_max q = (if is_max_default lg then Some (of_int (last (sort (map fst descr))))
                    else p_max p)
       \<and> (if is_segment_count_default p
           then (\<exists>mn mx i j. p_min q = Some mn \<and> p_max q = Some mx
                   \<and> index_of (sort (map fst descr)) mn = Some i
                   \<and> index_of (sort (map fst descr)) mx = Some j
                   \<and> p_segment_count q
                       = int (length (drop i (take (j + 1) (sort (map fst descr))))))
           else p_segment_count q = p_segment_count p)"
proof -
  let ?ks = "sort (map fst descr)"
  let ?p0 = "p\<lparr>p_ordinal_dictionary := Some descr\<rparr>"
  have ks_ne: "?ks \<noteq> [] \<longleftrightarrow> map fst descr \<noteq> []"
    by (metis length_0_conv length_sort)
  from step descr unset obtain q1 q2 where
    s1: "(if is_min_default lg then
            (case ?ks of [] \<Rightarrow> (Some IndexError, ?p0) | k # _ \<Rightarrow> set_min (Some (of_int k)) ?p0)
          else (None, ?p0)) = (None, q1)"
    and s2: "(if is_max_default lg then
               (if ?ks = [] then (Some IndexError, q1)
                else set_max (Some (of_int (last ?ks))) q1)
             else (None, q1)) = (None, q2)"
    and s3: "align_segment_count ?ks q2 = (None, q)"
    by (auto simp: ordinal_from_data_type_def Let_def run_setters_Cons run_setters_Nil
        set_ordinal_dictionary_def simp del: run_setters.simps)
  have q1: "q1 = (if is_min_default lg then ?p0\<lparr>p_min := Some (of_int (hd ?ks))\<rparr> else ?p0)
            \<and> (is_min_default lg \<longrightarrow> ?ks \<noteq> [])"
  proof (cases "is_min_default lg")
    case False
    with s1 show ?thesis by simp
  next
    case True
    with s1 obtain k r where kr: "?ks = k # r" by (cases ?ks) auto
    with True s1 have "set_min (Some (of_int k)) ?p0 = (None, q1)" by simp
    from set_min_ok [OF this] True kr show ?thesis by simp
  qed
  have q2: "q2 = (if is_max_default lg then q1\<lparr>p_max := Some (of_int (last ?ks))\<rparr> else q1)
            \<and> (is_max_default lg \<longrightarrow> ?ks \<noteq> [])"
  proof (cases "is_max_default lg")
    case False
    with s2 show ?thesis by simp
  next
    case True
    with s2 have ne: "?ks \<noteq> []" by (auto split: if_splits)
    with True s2 have "set_max (Some (of_int (last ?ks))) q1 = (None, q2)" by simp
    from set_max_ok [OF this] True ne show ?thesis by simp
  qed
  from q1 q2 have fields: "p_ordinal_dictionary q2 = Some descr"
    "p_min q2 = (if is_min_default lg then Some (of_int (hd ?ks)) else p_min p)"
    "p_max q2 = (if is_max_default lg then Some (of_int (last ?ks)) else p_max p)"
    "p_segment_count q2 = p_segment_count p"
    "is_segment_count_default q2 = is_segment_count_default p"
    by auto
  from align_segment_count_ok [OF s3] fields q1 q2 ks_ne show ?thesis
    by auto
qed

lemma default_parameters_constructed:
  "LegendParameters sample_palette None None None None None None = Inr default_parameters"
  by code_simp

lemma sample_container_constructed:
  "GraphicContainer_init sample_palette [default_parameters\<lparr>p_max := Some 0\<rparr>] [- 1 / 2, 0]
       box_min box_max (Some 0) (Some thermal_condition) None
     = (Inr sample_container,
        [default_parameters\<lparr>p_max := Some 0\<rparr>, sample_container_parameters])"
  by code_simp

text \<open>
  C5: a container that is constructed for a data type with categories, from
  parameters without an ordinal dictionary, takes the dictionary of the data type; the
  minimum of its legend is the smallest key when the parameters had no minimum, the
  maximum is the largest key when they had no maximum, and the segment count is the
  number of keys from the minimum to the maximum when the segment count was the
  default one; a minimum, maximum or segment count that the user set is the one of the
  legend. The parameters that the user passed are left as they were.
\<close>

theorem ordinal_defaults_respect_user_values:
  assumes a: "a < length h"
    and descr: "unit_descr dt = Some descr" and dist: "distinct (map fst descr)"
    and unset: "p_ordinal_dictionary (h ! a) = None"
    and init: "GraphicContainer_init pal h vals min_point max_point (Some a) (Some dt) unit
                 = (Inr gc, h')"
  shows "h' ! a = h ! a
       \<and> p_ordinal_dictionary (legend_parameters_of h' (g_legend gc)) = Some descr
       \<and> is_min_default (g_legend gc) = (p_min (h ! a) = None)
       \<and> is_max_default (g_legend gc) = (p_max (h ! a) = None)
       \<and> p_min (legend_parameters_of h' (g_legend gc))
           = (if p_min (h ! a) = None then Some (of_int (Min (fst ` set descr)))
              else p_min (h ! a))
       \<and> p_max (legend_parameters_of h' (g_legend gc))
           = (if p_max (h ! a) = None then Some (of_int (Max (fst ` set descr)))
              else p_max (h ! a))
       \<and> (if is_segment_count_default (h ! a)
           then (\<exists>mn mx. p_min (legend_parameters_of h' (g_legend gc)) = Some mn
                   \<and> p_max (legend_parameters_of h' (g_legend gc)) = Some mx
                   \<and> p_segment_count (legend_parameters_of h' (g_legend gc))
                       = int (card {k \<in> fst ` set descr. mn \<le> of_int k \<and> of_int k \<le> mx}))
           else p_segment_count (legend_parameters_of h' (g_legend gc))
                  = p_segment_count (h ! a))"
proof -
  let ?p = "h ! a"
  let ?ks = "sort (map fst descr)"
  from init obtain lg h1 where leg: "Legend_init pal h vals (Some a) = (Inr lg, h1)"
    by (auto simp: GraphicContainer_init_def split: prod.splits sum.splits)
  with init obtain pf where
    run: "run_setters [title_from_data_type dt unit, ordinal_from_data_type dt lg,
                       default_segment_height min_point max_point,
                       default_base_plane min_point max_point] (h1 ! l_legend_par lg)
            = (None, pf)"
    and gc: "g_legend gc = lg" and h': "h' = h1[l_legend_par lg := pf]"
    by (auto simp: GraphicContainer_init_def split: prod.splits option.splits)
  from Legend_init_parameters [OF leg] obtain q0 where
    all: "h1 = h @ [q0] \<and> l_legend_par lg = length h
           \<and> is_min_default lg = (p_min (h ! a) = None)
           \<and> is_max_default lg = (p_max (h ! a) = None)
           \<and> (p_min (h ! a) \<noteq> None \<longrightarrow> p_min q0 = p_min (h ! a))
           \<and> (p_max (h ! a) \<noteq> None \<longrightarrow> p_max q0 = p_max (h ! a))
           \<and> p_min q0 \<noteq> None \<and> p_max q0 \<noteq> None
           \<and> p_segment_count q0 = p_segment_count (h ! a)
           \<and> is_segment_count_default q0 = is_segment_count_default (h ! a)
           \<and> p_ordinal_dictionary q0 = p_ordinal_dictionary (h ! a)"
    by (rule exE)
  from all have h1: "h1 = h @ [q0]" and l: "l_legend_par lg = length h"
    and dmin: "is_min_default lg = (p_min ?p = None)"
    and dmax: "is_max_default lg = (p_max ?p = None)"
    and q0: "p_min ?p \<noteq> None \<longrightarrow> p_min q0 = p_min ?p"
      "p_max ?p \<noteq> None \<longrightarrow> p_max q0 = p_max ?p"
      "p_segment_count q0 = p_segment_count ?p"
      "is_segment_count_default q0 = is_segment_count_default ?p"
      "p_ordinal_dictionary q0 = p_ordinal_dictionary ?p"
    by simp_all
  have cell: "h1 ! l_legend_par lg = q0" by (simp add: h1 l)
  have heap: "h' = h @ [pf]" by (simp add: h' h1 l)
  have par: "legend_parameters_of h' (g_legend gc) = pf"
    by (simp add: legend_parameters_of_def gc l heap)
  have old: "h' ! a = h ! a" using a by (simp add: heap nth_append)
  from run cell obtain q1 q2 q3 where
    s1: "title_from_data_type dt unit q0 = (None, q1)"
    and s2: "ordinal_from_data_type dt lg q1 = (None, q2)"
    and s3: "default_segment_height min_point max_point q2 = (None, q3)"
    and s4: "default_base_plane min_point max_point q3 = (None, pf)"
    by (auto simp: run_setters_Cons run_setters_Nil simp del: run_setters.simps)
  from title_from_data_type_range [OF s1] have r1: "same_range q0 q1" .
  from default_segment_height_range [OF s3] default_base_plane_range [OF s4]
  have r3: "same_range q2 pf" by (auto simp: same_range_def)
  have unset1: "p_ordinal_dictionary q1 = None"
    using r1 q0(5) unset by (simp add: same_range_def)
  note ord = ordinal_from_data_type_ok [OF descr unset1 s2]
  have keys: "set (map fst descr) = fst ` set descr" by simp
  have dict: "p_ordinal_dictionary pf = Some descr"
    using ord r3 by (simp add: same_range_def)
  have mn: "p_min pf = (if p_min ?p = None then Some (of_int (Min (fst ` set descr)))
                        else p_min ?p)"
  proof (cases "p_min ?p = None")
    case True
    with dmin ord have "map fst descr \<noteq> []" by simp
    from hd_sort_Min [OF this] True dmin ord r3 keys show ?thesis
      by (simp add: same_range_def)
  next
    case False
    with dmin ord r3 r1 q0(1) show ?thesis by (simp add: same_range_def)
  qed
  have mx: "p_max pf = (if p_max ?p = None then Some (of_int (Max (fst ` set descr)))
                        else p_max ?p)"
  proof (cases "p_max ?p = None")
    case True
    with dmax ord have "map fst descr \<noteq> []" by simp
    from last_sort_Max [OF this] True dmax ord r3 keys show ?thesis
      by (simp add: same_range_def)
  next
    case False
    with dmax ord r3 r1 q0(2) show ?thesis by (simp add: same_range_def)
  qed
  have cnt: "if is_segment_count_default ?p
           then (\<exists>mn mx. p_min pf = Some mn \<and> p_max pf = Some mx
                   \<and> p_segment_count pf
                       = int (card {k \<in> fst ` set descr. mn \<le> of_int k \<and> of_int k \<le> mx}))
           else p_segment_count pf = p_segment_count ?p"
  proof (cases "is_segment_count_default ?p")
    case False
    with ord r1 r3 q0(3,4) show ?thesis by (simp add: same_range_def)
  next
    case True
    with r1 q0(4) have d1: "is_segment_count_default q1" by (simp add: same_range_def)
    note cpart = ord [THEN conjunct2, THEN conjunct2, THEN conjunct2, THEN conjunct2]
    have "\<exists>mn mx i j. p_min q2 = Some mn \<and> p_max q2 = Some mx
                   \<and> index_of ?ks mn = Some i \<and> index_of ?ks mx = Some j
                   \<and> p_segment_count q2 = int (length (drop i (take (j + 1) ?ks)))"
      using cpart d1 by (simp only: if_True)
    then obtain mn mx i j where
      m: "p_min q2 = Some mn" "p_max q2 = Some mx"
      and ix: "index_of ?ks mn = Some i" "index_of ?ks mx = Some j"
      and c: "p_segment_count q2 = int (length (drop i (take (j + 1) ?ks)))"
      by blast
    from keys_between [OF dist ix] c keys
    have "p_segment_count q2
            = int (card {k \<in> fst ` set descr. mn \<le> of_int k \<and> of_int k \<le> mx})"
      by simp
    with m r3 True show ?thesis by (auto simp: same_range_def)
  qed
  have par': "legend_parameters_of h' lg = pf" using par gc by simp
  show ?thesis
    unfolding gc par' by (intro conjI old dict dmin dmax mn mx cnt)
qed

theorem ordinal_defaults_respect_user_values_witness:
  "(0::nat) < length [default_parameters\<lparr>p_max := Some 0\<rparr>]
   \<and> unit_descr thermal_condition = Some [(- 1, ''Cold''), (0, ''Neutral''), (1, ''Hot'')]
   \<and> distinct (map fst [(- 1 :: int, ''Cold''), (0, ''Neutral''), (1, ''Hot'')])
   \<and> p_ordinal_dictionary ([default_parameters\<lparr>p_max := Some 0\<rparr>] ! 0) = None
   \<and> GraphicContainer_init sample_palette [default_parameters\<lparr>p_max := Some 0\<rparr>] [- 1 / 2, 0]
         box_min box_max (Some 0) (Some thermal_condition) None
       = (Inr sample_container,
          [default_parameters\<lparr>p_max := Some 0\<rparr>, sample_container_parameters])
   \<and> p_min (default_parameters\<lparr>p_max := Some 0\<rparr>) = None
   \<and> is_segment_count_default (default_parameters\<lparr>p_max := Some 0\<rparr>)
   \<and> p_min (legend_parameters_of
               [default_parameters\<lparr>p_max := Some 0\<rparr>, sample_container_parameters]
               (g_legend sample_container))
       = Some (of_int (Min (fst ` set [(- 1 :: int, ''Cold''), (0, ''Neutral''), (1, ''Hot'')])))
   \<and> p_min sample_container_parameters = Some (- 1)
   \<and> p_max (legend_parameters_of
               [default_parameters\<lparr>p_max := Some 0\<rparr>, sample_container_parameters]
               (g_legend sample_container)) = Some 0
   \<and> p_segment_count sample_container_parameters = 2"
proof -
  have a: "(0::nat) < length [default_parameters\<lparr>p_max := Some 0\<rparr>]" by simp
  have d: "unit_descr thermal_condition = Some [(- 1, ''Cold''), (0, ''Neutral''), (1, ''Hot'')]"
    by (simp add: thermal_condition_def)
  have di: "distinct (map fst [(- 1 :: int, ''Cold''), (0, ''Neutral''), (1, ''Hot'')])"
    by simp
  have u: "p_ordinal_dictionary ([default_parameters\<lparr>p_max := Some 0\<rparr>] ! 0) = None"
    by (simp add: default_parameters_def six_segments_def)
  have f: "p_min (default_parameters\<lparr>p_max := Some 0\<rparr>) = None"
    "is_segment_count_default (default_parameters\<lparr>p_max := Some 0\<rparr>)"
    "p_max (default_parameters\<lparr>p_max := Some 0\<rparr>) = Some 0"
    "p_min sample_container_parameters = Some (- 1)"
    "p_segment_count sample_container_parameters = 2"
    by (simp_all add: default_parameters_def six_segments_def sample_container_parameters_def)
  from ordinal_defaults_respect_user_values [OF a d di u sample_container_constructed]
  show ?thesis
    using a d di u f sample_container_constructed by simp
qed

end
